theory Spec2Isabelle
  imports Main
begin

section \<open>Strings and formatting\<close>

text \<open>
  Go strings are byte sequences; they are modelled as \<open>string\<close> (a list of bytes).
  The helpers below are the library functions the generator calls: \<open>strings.ReplaceAll\<close>
  (only ever called with a one-byte pattern), \<open>strings.ToLower\<close> (on ASCII text: bytes
  outside \<open>A..Z\<close> are left alone; Unicode case mapping of non-ASCII text is not modelled),
  \<open>strings.Join\<close>, \<open>strings.Contains\<close>, \<open>strconv.FormatBool\<close> and the \<open>%d\<close> verb of
  \<open>fmt.Sprintf\<close>.
\<close>

definition newline :: char where
  "newline = CHR 0x0A"

definition ReplaceAll :: "string \<Rightarrow> char \<Rightarrow> string \<Rightarrow> string" where
  "ReplaceAll s old new = concat (map (\<lambda>c. if c = old then new else [c]) s)"

definition toLowerByte :: "char \<Rightarrow> char" where
  "toLowerByte c =
     (case map_of (zip ''ABCDEFGHIJKLMNOPQRSTUVWXYZ'' ''abcdefghijklmnopqrstuvwxyz'') c of
        Some l \<Rightarrow> l
      | None \<Rightarrow> c)"

definition ToLower :: "string \<Rightarrow> string" where
  "ToLower s = map toLowerByte s"

fun Join :: "string list \<Rightarrow> string \<Rightarrow> string" where
  "Join [] sep = []"
| "Join [x] sep = x"
| "Join (x # y # ys) sep = x @ sep @ Join (y # ys) sep"

fun HasPrefix :: "string \<Rightarrow> string \<Rightarrow> bool" where
  "HasPrefix s [] = True"
| "HasPrefix [] (p # ps) = False"
| "HasPrefix (c # cs) (p # ps) = (c = p \<and> HasPrefix cs ps)"

fun Contains :: "string \<Rightarrow> string \<Rightarrow> bool" where
  "Contains [] sub = (sub = [])"
| "Contains (c # cs) sub = (HasPrefix (c # cs) sub \<or> Contains cs sub)"

definition FormatBool :: "bool \<Rightarrow> string" where
  "FormatBool b = (if b then ''true'' else ''false'')"

fun digits :: "nat \<Rightarrow> string" where
  "digits n =
     (if n < 10 then [''0123456789'' ! n]
      else digits (n div 10) @ [''0123456789'' ! (n mod 10)])"

definition Itoa :: "int \<Rightarrow> string" where
  "Itoa i = (if i < 0 then ''-'' @ digits (nat (- i)) else digits (nat i))"

text \<open>
  The lines of a text: the maximal newline-free segments, in order. A text that ends
  with a newline has an empty last segment.
\<close>

fun text_lines :: "string \<Rightarrow> string list" where
  "text_lines [] = [[]]"
| "text_lines (c # cs) =
     (if c = newline then [] # text_lines cs
      else (case text_lines cs of
              [] \<Rightarrow> [[c]]
            | l # ls \<Rightarrow> (c # l) # ls))"

section \<open>Configuration model\<close>

text \<open>
  The structs of package \<open>api\<close> as the generator reads them. Go's \<open>int\<close> fields are only
  compared with zero and printed, so they are unbounded integers here; a nil pointer
  is \<open>None\<close>. The proxy block is opaque to this code and is a list of key/value pairs.
\<close>

record SystemNetworkRoute =
  To :: string
  Via :: string

record SystemNetworkInterface =
  if_Name :: string
  if_Hwaddr :: string
  if_MTU :: int
  if_Addresses :: "string list"
  if_Routes :: "SystemNetworkRoute list"
  if_VLAN :: int
  if_LLDP :: bool

record SystemNetworkBond =
  bond_Name :: string
  bond_Hwaddr :: string
  bond_MTU :: int
  bond_Addresses :: "string list"
  bond_Routes :: "SystemNetworkRoute list"
  bond_VLAN :: int
  bond_LLDP :: bool
  bond_Members :: "string list"
  bond_Mode :: string

record SystemNetworkVLAN =
  vlan_Name :: string
  vlan_Parent :: string
  vlan_ID :: int
  vlan_MTU :: int
  vlan_Addresses :: "string list"
  vlan_Routes :: "SystemNetworkRoute list"

record SystemNetworkDNS =
  Hostname :: string
  Domain :: string
  SearchDomains :: "string list"
  Nameservers :: "string list"

record SystemNetworkNTP =
  Timeservers :: "string list"

type_synonym SystemNetworkProxy = "(string \<times> string) list"

record SystemNetworkConfig =
  Interfaces :: "SystemNetworkInterface list"
  Bonds :: "SystemNetworkBond list"
  VLANs :: "SystemNetworkVLAN list"
  DNS :: "SystemNetworkDNS option"
  NTP :: "SystemNetworkNTP option"
  Proxy :: "SystemNetworkProxy option"

record networkdConfigFile =
  Name :: string
  Contents :: string

section \<open>Artifact generation\<close>

definition strippedHwaddr :: "string \<Rightarrow> string" where
  "strippedHwaddr hwaddr = ToLower (ReplaceAll hwaddr CHR '':'' '''')"

definition generateLinkFileContents :: "SystemNetworkConfig \<Rightarrow> networkdConfigFile list" where
  "generateLinkFileContents networkCfg =
     map (\<lambda>i.
        \<lparr> Name = ''00-en'' @ strippedHwaddr (if_Hwaddr i) @ ''.link'',
          Contents = ''[Match]\<newline>PermanentMACAddress='' @ if_Hwaddr i @
            ''\<newline>\<newline>[Link]\<newline>NamePolicy=\<newline>Name=en'' @
            strippedHwaddr (if_Hwaddr i) @ ''\<newline>'' \<rparr>)
       (Interfaces networkCfg) @
     concat (map (\<lambda>b.
        map (\<lambda>member.
           \<lparr> Name = ''01-en'' @ strippedHwaddr member @ ''.link'',
             Contents = ''[Match]\<newline>PermanentMACAddress='' @ member @
               ''\<newline>\<newline>[Link]\<newline>NamePolicy=\<newline>Name=en'' @
               strippedHwaddr member @ ''\<newline>'' \<rparr>)
          (bond_Members b))
       (Bonds networkCfg))"

definition mtuString :: "int \<Rightarrow> string" where
  "mtuString mtu = (if mtu \<noteq> 0 then ''MTUBytes='' @ Itoa mtu else '''')"

definition interfaceNetdev :: "SystemNetworkInterface \<Rightarrow> networkdConfigFile" where
  "interfaceNetdev i =
     \<lparr> Name = ''10-br'' @ strippedHwaddr (if_Hwaddr i) @ ''.netdev'',
       Contents = ''[NetDev]\<newline>Name='' @ if_Name i @
         ''\<newline>Kind=bridge\<newline>MACAddress='' @ if_Hwaddr i @ ''\<newline>'' @
         mtuString (if_MTU i) @
         ''\<newline>\<newline>[Bridge]\<newline>VLANFiltering=true\<newline>'' \<rparr>"

definition bondNetdev :: "SystemNetworkBond \<Rightarrow> networkdConfigFile" where
  "bondNetdev b =
     \<lparr> Name = ''11-bn'' @ strippedHwaddr (bond_Hwaddr b) @ ''.netdev'',
       Contents = ''[NetDev]\<newline>Name=bn'' @ strippedHwaddr (bond_Hwaddr b) @
         ''\<newline>Kind=bond\<newline>MACAddress='' @ bond_Hwaddr b @ ''\<newline>'' @
         mtuString (bond_MTU b) @
         ''\<newline>\<newline>[Bond]\<newline>Mode='' @ bond_Mode b @ ''\<newline>'' \<rparr>"

definition bondBridgeNetdev :: "SystemNetworkBond \<Rightarrow> networkdConfigFile" where
  "bondBridgeNetdev b =
     \<lparr> Name = ''11-br'' @ strippedHwaddr (bond_Hwaddr b) @ ''.netdev'',
       Contents = ''[NetDev]\<newline>Name='' @ bond_Name b @
         ''\<newline>Kind=bridge\<newline>MACAddress='' @ bond_Hwaddr b @ ''\<newline>'' @
         mtuString (bond_MTU b) @
         ''\<newline>\<newline>[Bridge]\<newline>VLANFiltering=true\<newline>'' \<rparr>"

definition vlanNetdev :: "SystemNetworkVLAN \<Rightarrow> networkdConfigFile" where
  "vlanNetdev v =
     \<lparr> Name = ''12-vl'' @ vlan_Name v @ ''.netdev'',
       Contents = ''[NetDev]\<newline>Name=vl'' @ vlan_Name v @
         ''\<newline>Kind=vlan\<newline>'' @ mtuString (vlan_MTU v) @
         ''\<newline>\<newline>[VLAN]\<newline>Id='' @ Itoa (vlan_ID v) @ ''\<newline>'' \<rparr>"

definition generateNetdevFileContents :: "SystemNetworkConfig \<Rightarrow> networkdConfigFile list" where
  "generateNetdevFileContents networkCfg =
     map interfaceNetdev (Interfaces networkCfg) @
     concat (map (\<lambda>b. [bondNetdev b, bondBridgeNetdev b]) (Bonds networkCfg)) @
     map vlanNetdev (VLANs networkCfg)"

text \<open>
  \<open>processAddresses\<close>: the loop over the tokens carries the text built so far and the
  three flags \<open>hasDHCP4\<close>, \<open>hasDHCP6\<close>, \<open>acceptIPv6RA\<close>.
\<close>

fun processAddresses_loop ::
  "string list \<Rightarrow> string \<times> bool \<times> bool \<times> bool \<Rightarrow> string \<times> bool \<times> bool \<times> bool" where
  "processAddresses_loop [] st = st"
| "processAddresses_loop (addr # rest) (ret, hasDHCP4, hasDHCP6, acceptIPv6RA) =
     (if addr = ''dhcp4'' then processAddresses_loop rest (ret, True, hasDHCP6, acceptIPv6RA)
      else if addr = ''dhcp6'' then processAddresses_loop rest (ret, hasDHCP4, True, acceptIPv6RA)
      else if addr = ''slaac'' then processAddresses_loop rest (ret, hasDHCP4, hasDHCP6, True)
      else processAddresses_loop rest
             (ret @ ''Address='' @ addr @ ''\<newline>'', hasDHCP4, hasDHCP6, acceptIPv6RA))"

definition processAddresses :: "string list \<Rightarrow> string" where
  "processAddresses addresses =
     (let ret0 = (if length addresses \<noteq> 0 then ''LinkLocalAddressing=ipv6\<newline>''
                  else ''LinkLocalAddressing=no\<newline>'' @ ''ConfigureWithoutCarrier=yes\<newline>'');
          (ret1, hasDHCP4, hasDHCP6, acceptIPv6RA) =
             processAddresses_loop addresses (ret0, False, False, False);
          ret2 = (if acceptIPv6RA then ret1 @ ''IPv6AcceptRA=true\<newline>''
                  else ret1 @ ''IPv6AcceptRA=false\<newline>'')
      in if hasDHCP4 \<and> hasDHCP6 then ret2 @ ''DHCP=yes\<newline>''
         else if hasDHCP4 then ret2 @ ''DHCP=ipv4\<newline>''
         else if hasDHCP6 then ret2 @ ''DHCP=ipv6\<newline>''
         else ret2)"

fun processRoutes_loop :: "SystemNetworkRoute list \<Rightarrow> string \<Rightarrow> string" where
  "processRoutes_loop [] ret = ret"
| "processRoutes_loop (route # rest) ret =
     (let ret1 = (if Via route = ''dhcp4'' then ret @ ''Gateway=_dhcp4\<newline>''
                  else if Via route = ''slaac'' then ret @ ''Gateway=_ipv6ra\<newline>''
                  else ret @ ''Gateway='' @ Via route @ ''\<newline>'')
      in processRoutes_loop rest (ret1 @ ''Destination='' @ To route @ ''\<newline>''))"

definition processRoutes :: "SystemNetworkRoute list \<Rightarrow> string" where
  "processRoutes routes = processRoutes_loop routes ''\<newline>[Route]\<newline>''"

definition generateNetworkSectionContents ::
  "SystemNetworkDNS option \<Rightarrow> SystemNetworkNTP option \<Rightarrow> string" where
  "generateNetworkSectionContents dns ntp =
     (case dns of
        None \<Rightarrow> ''''
      | Some d \<Rightarrow>
          (if length (SearchDomains d) > 0
           then ''Domains='' @ Join (SearchDomains d) '' '' @ ''\<newline>'' else '''') @
          concat (map (\<lambda>ns. ''DNS='' @ ns @ ''\<newline>'') (Nameservers d))) @
     (case ntp of
        None \<Rightarrow> ''''
      | Some n \<Rightarrow> concat (map (\<lambda>ts. ''NTP='' @ ts @ ''\<newline>'') (Timeservers n)))"

definition generateTimesyncContents :: "SystemNetworkNTP \<Rightarrow> string" where
  "generateTimesyncContents ntp =
     (if length (Timeservers ntp) = 0 then ''''
      else ''[Time]\<newline>FallbackNTP='' @ Join (Timeservers ntp) '' '' @ ''\<newline>'')"

definition bridgeVLAN :: "int \<Rightarrow> string" where
  "bridgeVLAN vlan =
     (if vlan \<noteq> 0
      then ''\<newline>[BridgeVLAN]\<newline>VLAN=1-4094\<newline>PVID='' @ Itoa vlan @ ''\<newline>''
      else '''')"

definition interfaceNetwork ::
  "SystemNetworkDNS option \<Rightarrow> SystemNetworkNTP option \<Rightarrow> SystemNetworkInterface \<Rightarrow> networkdConfigFile" where
  "interfaceNetwork dns ntp i =
     \<lparr> Name = ''20-'' @ if_Name i @ ''.network'',
       Contents = ''[Match]\<newline>Name='' @ if_Name i @
         ''\<newline>\<newline>[DHCP]\<newline>ClientIdentifier=mac\<newline>RouteMetric=100\<newline>UseMTU=true\<newline>\<newline>[Network]\<newline>'' @
         generateNetworkSectionContents dns ntp @
         processAddresses (if_Addresses i) @
         (if length (if_Routes i) > 0 then processRoutes (if_Routes i) else '''') @
         bridgeVLAN (if_VLAN i) \<rparr>"

definition interfaceBridgeNetwork :: "SystemNetworkInterface \<Rightarrow> networkdConfigFile" where
  "interfaceBridgeNetwork i =
     \<lparr> Name = ''20-br'' @ strippedHwaddr (if_Hwaddr i) @ ''.network'',
       Contents = ''[Match]\<newline>Name=en'' @ strippedHwaddr (if_Hwaddr i) @
         ''\<newline>\<newline>[Network]\<newline>Bridge='' @ if_Name i @
         ''\<newline>LLDP='' @ FormatBool (if_LLDP i) @
         ''\<newline>EmitLLDP='' @ FormatBool (if_LLDP i) @ ''\<newline>'' \<rparr>"

definition bondNetwork ::
  "SystemNetworkDNS option \<Rightarrow> SystemNetworkNTP option \<Rightarrow> SystemNetworkBond \<Rightarrow> networkdConfigFile" where
  "bondNetwork dns ntp b =
     \<lparr> Name = ''21-'' @ bond_Name b @ ''.network'',
       Contents = ''[Match]\<newline>Name='' @ bond_Name b @
         ''\<newline>\<newline>[DHCP]\<newline>ClientIdentifier=mac\<newline>RouteMetric=100\<newline>UseMTU=true\<newline>\<newline>[Network]\<newline>'' @
         generateNetworkSectionContents dns ntp @
         processAddresses (bond_Addresses b) @
         (if length (bond_Routes b) > 0 then processRoutes (bond_Routes b) else '''') @
         bridgeVLAN (bond_VLAN b) \<rparr>"

definition bondBridgeNetwork :: "SystemNetworkBond \<Rightarrow> networkdConfigFile" where
  "bondBridgeNetwork b =
     \<lparr> Name = ''21-br'' @ strippedHwaddr (bond_Hwaddr b) @ ''.network'',
       Contents = ''[Match]\<newline>Name=bn'' @ strippedHwaddr (bond_Hwaddr b) @
         ''\<newline>\<newline>[Network]\<newline>Bridge='' @ bond_Name b @ ''\<newline>'' \<rparr>"

definition bondMemberNetwork :: "SystemNetworkBond \<Rightarrow> nat \<Rightarrow> string \<Rightarrow> networkdConfigFile" where
  "bondMemberNetwork b index member =
     \<lparr> Name = ''21-bn'' @ strippedHwaddr (bond_Hwaddr b) @ ''-dev'' @ Itoa (int index) @ ''.network'',
       Contents = ''[Match]\<newline>Name=en'' @ strippedHwaddr member @
         ''\<newline>\<newline>[Network]\<newline>Bond=bn'' @ strippedHwaddr (bond_Hwaddr b) @
         ''\<newline>LLDP='' @ FormatBool (bond_LLDP b) @
         ''\<newline>EmitLLDP='' @ FormatBool (bond_LLDP b) @ ''\<newline>'' \<rparr>"

definition vlanNetwork ::
  "SystemNetworkDNS option \<Rightarrow> SystemNetworkNTP option \<Rightarrow> SystemNetworkVLAN \<Rightarrow> networkdConfigFile" where
  "vlanNetwork dns ntp v =
     \<lparr> Name = ''22-vl'' @ vlan_Name v @ ''.network'',
       Contents = ''[Match]\<newline>Name='' @ vlan_Parent v @
         ''\<newline>\<newline>[DHCP]\<newline>ClientIdentifier=mac\<newline>RouteMetric=100\<newline>UseMTU=true\<newline>\<newline>[Network]\<newline>VLAN=vl'' @
         vlan_Name v @ ''\<newline>'' @
         generateNetworkSectionContents dns ntp @
         processAddresses (vlan_Addresses v) @
         (if length (vlan_Routes v) > 0 then processRoutes (vlan_Routes v) else '''') \<rparr>"

definition generateNetworkFileContents :: "SystemNetworkConfig \<Rightarrow> networkdConfigFile list" where
  "generateNetworkFileContents networkCfg =
     concat (map (\<lambda>i. [interfaceNetwork (DNS networkCfg) (NTP networkCfg) i,
                        interfaceBridgeNetwork i])
               (Interfaces networkCfg)) @
     concat (map (\<lambda>b. [bondNetwork (DNS networkCfg) (NTP networkCfg) b, bondBridgeNetwork b] @
                       map (\<lambda>(index, member). bondMemberNetwork b index member)
                         (enumerate 0 (bond_Members b)))
               (Bonds networkCfg)) @
     map (vlanNetwork (DNS networkCfg) (NTP networkCfg)) (VLANs networkCfg)"

text \<open>
  The emitted lines of \<open>processAddresses\<close> as the specification lists them: the
  link-local policy, one Address line per non-reserved token, the router-advertisement
  policy, and at most one DHCP line.
\<close>

definition addressLines :: "string list \<Rightarrow> string list" where
  "addressLines addrs =
     (if addrs \<noteq> [] then [''LinkLocalAddressing=ipv6'']
      else [''LinkLocalAddressing=no'', ''ConfigureWithoutCarrier=yes'']) @
     map (\<lambda>a. ''Address='' @ a)
       (filter (\<lambda>a. a \<noteq> ''dhcp4'' \<and> a \<noteq> ''dhcp6'' \<and> a \<noteq> ''slaac'') addrs) @
     [if ''slaac'' \<in> set addrs then ''IPv6AcceptRA=true'' else ''IPv6AcceptRA=false''] @
     (if ''dhcp4'' \<in> set addrs \<and> ''dhcp6'' \<in> set addrs then [''DHCP=yes'']
      else if ''dhcp4'' \<in> set addrs then [''DHCP=ipv4'']
      else if ''dhcp6'' \<in> set addrs then [''DHCP=ipv6'']
      else [])"

text \<open>
  The lines that the address tokens contribute to an artifact (the output of
  \<open>processAddresses\<close> ends with a line break, so its last segment is dropped), and
  the specification's rules for them, in its own words.
\<close>

definition addressBody :: "string list \<Rightarrow> string list" where
  "addressBody addrs = butlast (text_lines (processAddresses addrs))"

definition addressingPolicy :: "string list \<Rightarrow> string list \<Rightarrow> bool" where
  "addressingPolicy addrs body =
     ((addrs \<noteq> [] \<longrightarrow> ''LinkLocalAddressing=ipv6'' \<in> set body)
    \<and> (addrs = [] \<longrightarrow>
          ''LinkLocalAddressing=no'' \<in> set body
        \<and> ''ConfigureWithoutCarrier=yes'' \<in> set body
        \<and> ''LinkLocalAddressing=ipv6'' \<notin> set body)
    \<and> (''IPv6AcceptRA=true'' \<in> set body \<longleftrightarrow> ''slaac'' \<in> set addrs)
    \<and> (''IPv6AcceptRA=false'' \<in> set body \<longleftrightarrow> ''slaac'' \<notin> set addrs)
    \<and> (''DHCP=yes'' \<in> set body \<longleftrightarrow> ''dhcp4'' \<in> set addrs \<and> ''dhcp6'' \<in> set addrs)
    \<and> (''DHCP=ipv4'' \<in> set body \<longleftrightarrow> ''dhcp4'' \<in> set addrs \<and> ''dhcp6'' \<notin> set addrs)
    \<and> (''DHCP=ipv6'' \<in> set body \<longleftrightarrow> ''dhcp6'' \<in> set addrs \<and> ''dhcp4'' \<notin> set addrs)
    \<and> ((\<exists>l\<in>set body. HasPrefix l ''DHCP='') \<longleftrightarrow> ''dhcp4'' \<in> set addrs \<or> ''dhcp6'' \<in> set addrs)
    \<and> filter (\<lambda>l. HasPrefix l ''Address='') body =
        map (\<lambda>a. ''Address='' @ a)
          (filter (\<lambda>a. a \<noteq> ''dhcp4'' \<and> a \<noteq> ''dhcp6'' \<and> a \<noteq> ''slaac'') addrs))"

section \<open>The outside world\<close>

text \<open>
  Everything the code does to the host goes through a capability that is not part of
  the code: the hostname and environment helpers, the filesystem, the service manager,
  subprocesses, the clock. A call to one of them is an \<open>action\<close>; the \<open>world\<close> is the
  wall clock (in nanoseconds) and the actions performed so far, oldest first. File
  modes are given in decimal (\<open>0o755 = 493\<close>, \<open>0o644 = 420\<close>), durations in nanoseconds.

  The \<open>environment\<close> holds what the code cannot decide: which capability call fails
  (given the calls made before it), what \<open>networkctl status\<close> prints for a device in the
  \<open>k\<close>-th poll cycle, how much time passes between the wait's reading of the clock for
  its deadline and its first deadline check (\<open>entryDelay\<close>), how much time beyond the
  requested sleep passes between two deadline checks (\<open>elapsed\<close>), whether the caller's
  context is cancelled during the \<open>k\<close>-th poll cycle, whether a network seed exists,
  the two path constants of the package, and \<open>filepath.Join\<close>.
\<close>

datatype action =
    SetHostname string
  | UpdateEnvironment "SystemNetworkProxy option"
  | RemoveAll string
  | Mkdir string nat
  | WriteFile string string nat
  | Remove string
  | Sleep int
  | RunCommand "string list"
  | RestartUnit string

record world =
  now :: int
  effects :: "action list"

record environment =
  fault :: "action list \<Rightarrow> action \<Rightarrow> string option"
  networkctl_status :: "nat \<Rightarrow> string \<Rightarrow> string option"
  entryDelay :: nat
  elapsed :: "nat \<Rightarrow> nat"
  cancelled :: "nat \<Rightarrow> bool"
  NetworkSeedExists :: bool
  SystemdNetworkConfigPath :: string
  SystemdTimesyncConfigFile :: string
  filepath_Join :: "string \<Rightarrow> string \<Rightarrow> string"

definition perform :: "environment \<Rightarrow> action \<Rightarrow> world \<Rightarrow> string option \<times> world" where
  "perform e a w = (fault e (effects w) a, w\<lparr>effects := effects w @ [a]\<rparr>)"

definition sleep :: "int \<Rightarrow> world \<Rightarrow> world" where
  "sleep d w = w\<lparr>now := now w + d, effects := effects w @ [Sleep d]\<rparr>"

section \<open>Waiting for the network\<close>

text \<open>
  \<open>subprocess.RunCommandContext\<close> with a cancelled context returns an error without
  output; otherwise \<open>networkctl status name\<close> returns an error or its output.
\<close>

definition networkctl :: "environment \<Rightarrow> nat \<Rightarrow> string \<Rightarrow> string option" where
  "networkctl e k name = (if cancelled e k then None else networkctl_status e k name)"

definition routable :: "environment \<Rightarrow> nat \<Rightarrow> string \<Rightarrow> bool" where
  "routable e k name =
     (case networkctl e k name of
        None \<Rightarrow> False
      | Some output \<Rightarrow> Contains output ''State: routable'')"

definition isRoutable :: "environment \<Rightarrow> nat \<Rightarrow> string \<Rightarrow> action list \<Rightarrow> bool \<times> action list" where
  "isRoutable e k name log =
     (routable e k name, log @ [RunCommand [''networkctl'', ''status'', name]])"

text \<open>
  The loop over the devices of one category, carrying \<open>allRoutable\<close>,
  \<open>atLestOneRoutable\<close> and the log of calls.
\<close>

fun rangeRoutable ::
  "environment \<Rightarrow> nat \<Rightarrow> string list \<Rightarrow> bool \<times> bool \<times> action list \<Rightarrow> bool \<times> bool \<times> action list" where
  "rangeRoutable e k [] st = st"
| "rangeRoutable e k (name # rest) (allRoutable, atLestOneRoutable, log) =
     (let (r, log') = isRoutable e k name log
      in rangeRoutable e k rest (allRoutable \<and> r, atLestOneRoutable \<or> r, log'))"

text \<open>
  One category of one poll cycle: \<open>True\<close> when the loop body goes on to the next
  category, \<open>False\<close> when it hits \<open>continue\<close>.
\<close>

definition pollCategory ::
  "environment \<Rightarrow> nat \<Rightarrow> bool \<Rightarrow> string list \<Rightarrow> action list \<Rightarrow> bool \<times> action list" where
  "pollCategory e k requireAllRoutable names log =
     (if length names > 0 then
        (let (allRoutable, atLestOneRoutable, log') =
               rangeRoutable e k names (True, False, log)
         in if requireAllRoutable \<and> \<not> allRoutable then (False, log')
            else if \<not> requireAllRoutable \<and> \<not> atLestOneRoutable then (False, log')
            else (True, log'))
      else (True, log))"

text \<open>
  The part of the loop body after the sleep: \<open>True\<close> when it reaches \<open>return nil\<close>,
  \<open>False\<close> when it continues with the next iteration.
\<close>

definition pollCycle ::
  "environment \<Rightarrow> SystemNetworkConfig \<Rightarrow> bool \<Rightarrow> nat \<Rightarrow> action list \<Rightarrow> bool \<times> action list" where
  "pollCycle e networkCfg requireAllRoutable k log =
     (case pollCategory e k requireAllRoutable (map if_Name (Interfaces networkCfg)) log of
        (False, log1) \<Rightarrow> (False, log1)
      | (True, log1) \<Rightarrow>
     (case pollCategory e k requireAllRoutable (map bond_Name (Bonds networkCfg)) log1 of
        (False, log2) \<Rightarrow> (False, log2)
      | (True, log2) \<Rightarrow>
     (case pollCategory e k requireAllRoutable (map vlan_Name (VLANs networkCfg)) log2 of
        (False, log3) \<Rightarrow> (False, log3)
      | (True, log3) \<Rightarrow> (True, log3))))"

function waitLoop ::
  "environment \<Rightarrow> SystemNetworkConfig \<Rightarrow> bool \<Rightarrow> int \<Rightarrow> nat \<Rightarrow> world \<Rightarrow> string option \<times> world" where
  "waitLoop e networkCfg requireAllRoutable endTime k w =
     (if now w > endTime
      then (Some ''timed out waiting for network to become routable'', w)
      else
        (let slept = w\<lparr>now := now w + 500000000 + int (elapsed e k),
                       effects := effects w @ [Sleep 500000000]\<rparr>;
             polled = pollCycle e networkCfg requireAllRoutable k (effects slept)
         in if fst polled then (None, slept\<lparr>effects := snd polled\<rparr>)
            else waitLoop e networkCfg requireAllRoutable endTime (Suc k)
                   (slept\<lparr>effects := snd polled\<rparr>)))"
  by pat_completeness auto
termination
  by (relation "measure (\<lambda>(e, networkCfg, requireAllRoutable, endTime, k, w). nat (endTime + 1 - now w))")
     auto

declare waitLoop.simps [simp del]

text \<open>
  The deadline is computed from the clock on entry; the first deadline check reads the
  clock again, \<open>entryDelay\<close> later.
\<close>

definition firstCheck :: "environment \<Rightarrow> world \<Rightarrow> int" where
  "firstCheck e w = now w + int (entryDelay e)"

definition waitForNetworkRoutable ::
  "environment \<Rightarrow> SystemNetworkConfig \<Rightarrow> int \<Rightarrow> bool \<Rightarrow> world \<Rightarrow> string option \<times> world" where
  "waitForNetworkRoutable e networkCfg timeout requireAllRoutable w =
     waitLoop e networkCfg requireAllRoutable (now w + timeout) 0 (w\<lparr>now := firstCheck e w\<rparr>)"

text \<open>
  The specification's reading of a poll cycle: the verdict of a category is the
  conjunction of its members' routability when all are required, their disjunction
  otherwise; a cycle is good when every non-empty category's verdict holds.
  \<open>checkTime e t k\<close> is the clock at the \<open>k\<close>-th deadline check of a wait whose first
  deadline check is at \<open>t\<close>.
\<close>

definition categoryVerdict :: "bool \<Rightarrow> bool list \<Rightarrow> bool" where
  "categoryVerdict requireAll rs = (if requireAll then foldr (\<and>) rs True else foldr (\<or>) rs False)"

definition cycleVerdict :: "environment \<Rightarrow> SystemNetworkConfig \<Rightarrow> bool \<Rightarrow> nat \<Rightarrow> bool" where
  "cycleVerdict e cfg requireAll k =
     ((Interfaces cfg = [] \<or> categoryVerdict requireAll (map (\<lambda>i. routable e k (if_Name i)) (Interfaces cfg)))
    \<and> (Bonds cfg = [] \<or> categoryVerdict requireAll (map (\<lambda>b. routable e k (bond_Name b)) (Bonds cfg)))
    \<and> (VLANs cfg = [] \<or> categoryVerdict requireAll (map (\<lambda>v. routable e k (vlan_Name v)) (VLANs cfg))))"

fun checkTime :: "environment \<Rightarrow> int \<Rightarrow> nat \<Rightarrow> int" where
  "checkTime e t 0 = t"
| "checkTime e t (Suc k) = checkTime e t k + 500000000 + int (elapsed e k)"

section \<open>Applying a configuration\<close>

fun writeFiles :: "environment \<Rightarrow> networkdConfigFile list \<Rightarrow> world \<Rightarrow> string option \<times> world" where
  "writeFiles e [] w = (None, w)"
| "writeFiles e (cfg # rest) w =
     (case perform e (WriteFile (filepath_Join e (SystemdNetworkConfigPath e) (Name cfg))
                        (Contents cfg) 420) w of
        (Some err, w') \<Rightarrow> (Some err, w')
      | (None, w') \<Rightarrow> writeFiles e rest w')"

definition generateNetworkConfiguration ::
  "environment \<Rightarrow> SystemNetworkConfig \<Rightarrow> world \<Rightarrow> string option \<times> world" where
  "generateNetworkConfiguration e networkCfg w0 =
     (case perform e (RemoveAll (SystemdNetworkConfigPath e)) w0 of
        (Some err, w1) \<Rightarrow> (Some err, w1)
      | (None, w1) \<Rightarrow>
     (case perform e (Mkdir (SystemdNetworkConfigPath e) 493) w1 of
        (Some err, w2) \<Rightarrow> (Some err, w2)
      | (None, w2) \<Rightarrow>
     (case writeFiles e (generateLinkFileContents networkCfg) w2 of
        (Some err, w3) \<Rightarrow> (Some err, w3)
      | (None, w3) \<Rightarrow>
     (case writeFiles e (generateNetdevFileContents networkCfg) w3 of
        (Some err, w4) \<Rightarrow> (Some err, w4)
      | (None, w4) \<Rightarrow>
     (case writeFiles e (generateNetworkFileContents networkCfg) w4 of
        (Some err, w5) \<Rightarrow> (Some err, w5)
      | (None, w5) \<Rightarrow>
     (let ntpCfg = (case NTP networkCfg of None \<Rightarrow> '''' | Some ntp \<Rightarrow> generateTimesyncContents ntp)
      in case (if NTP networkCfg \<noteq> None \<and> ntpCfg \<noteq> ''''
               then perform e (WriteFile (SystemdTimesyncConfigFile e) ntpCfg 420) w5
               else (None, w5)) of
           (Some err, w6) \<Rightarrow> (Some err, w6)
         | (None, w6) \<Rightarrow>
             (if NTP networkCfg = None \<or> ntpCfg = ''''
              then (None, snd (perform e (Remove (SystemdTimesyncConfigFile e)) w6))
              else (None, w6))))))))"

definition targetHostname :: "SystemNetworkConfig \<Rightarrow> string" where
  "targetHostname networkCfg =
     (case DNS networkCfg of
        None \<Rightarrow> ''''
      | Some dns \<Rightarrow>
          (if Hostname dns \<noteq> ''''
           then (if Domain dns \<noteq> '''' then Hostname dns @ ''.'' @ Domain dns else Hostname dns)
           else ''''))"

definition ApplyNetworkConfiguration ::
  "environment \<Rightarrow> SystemNetworkConfig option \<Rightarrow> int \<Rightarrow> world \<Rightarrow> string option \<times> world" where
  "ApplyNetworkConfiguration e networkCfgPtr timeout w0 =
     (case networkCfgPtr of
        None \<Rightarrow> (Some ''no network configuration provided'', w0)
      | Some networkCfg \<Rightarrow>
     (case perform e (SetHostname (targetHostname networkCfg)) w0 of
        (Some err, w1) \<Rightarrow> (Some err, w1)
      | (None, w1) \<Rightarrow>
     (case perform e (UpdateEnvironment (Proxy networkCfg)) w1 of
        (Some err, w2) \<Rightarrow> (Some err, w2)
      | (None, w2) \<Rightarrow>
     (case generateNetworkConfiguration e networkCfg w2 of
        (Some err, w3) \<Rightarrow> (Some err, w3)
      | (None, w3) \<Rightarrow>
     (case perform e (RunCommand [''udevadm'', ''trigger'', ''--action=add'']) (sleep 2000000000 w3) of
        (Some err, w4) \<Rightarrow> (Some err, w4)
      | (None, w4) \<Rightarrow>
     (case perform e (RunCommand [''udevadm'', ''settle'']) w4 of
        (Some err, w5) \<Rightarrow> (Some err, w5)
      | (None, w5) \<Rightarrow>
     (case perform e (RestartUnit ''systemd-networkd'') w5 of
        (Some err, w6) \<Rightarrow> (Some err, w6)
      | (None, w6) \<Rightarrow>
     (case perform e (RestartUnit ''systemd-timesyncd'') w6 of
        (Some err, w7) \<Rightarrow> (Some err, w7)
      | (None, w7) \<Rightarrow>
          waitForNetworkRoutable e networkCfg timeout (NetworkSeedExists e) w7))))))))"

text \<open>
  The step sequence as the specification lists it. A step is a capability call and
  whether its error matters: the removal of a stale time-sync file is the one call
  whose error the code discards. \<open>runSteps\<close> performs the steps in order and stops at
  the first one that fails.
\<close>

definition generateSteps :: "environment \<Rightarrow> SystemNetworkConfig \<Rightarrow> (action \<times> bool) list" where
  "generateSteps e cfg =
     [(RemoveAll (SystemdNetworkConfigPath e), True),
      (Mkdir (SystemdNetworkConfigPath e) 493, True)] @
     map (\<lambda>f. (WriteFile (filepath_Join e (SystemdNetworkConfigPath e) (Name f)) (Contents f) 420, True))
       (generateLinkFileContents cfg @ generateNetdevFileContents cfg @
        generateNetworkFileContents cfg) @
     (case NTP cfg of
        None \<Rightarrow> [(Remove (SystemdTimesyncConfigFile e), False)]
      | Some ntp \<Rightarrow>
          (if Timeservers ntp = [] then [(Remove (SystemdTimesyncConfigFile e), False)]
           else [(WriteFile (SystemdTimesyncConfigFile e)
                    (''[Time]\<newline>FallbackNTP='' @ Join (Timeservers ntp) '' '' @ ''\<newline>'') 420,
                  True)]))"

definition applySteps :: "environment \<Rightarrow> SystemNetworkConfig \<Rightarrow> (action \<times> bool) list" where
  "applySteps e cfg =
     [(SetHostname (targetHostname cfg), True),
      (UpdateEnvironment (Proxy cfg), True)] @
     generateSteps e cfg @
     [(Sleep 2000000000, True),
      (RunCommand [''udevadm'', ''trigger'', ''--action=add''], True),
      (RunCommand [''udevadm'', ''settle''], True),
      (RestartUnit ''systemd-networkd'', True),
      (RestartUnit ''systemd-timesyncd'', True)]"

fun runSteps :: "environment \<Rightarrow> (action \<times> bool) list \<Rightarrow> world \<Rightarrow> string option \<times> world" where
  "runSteps e [] w = (None, w)"
| "runSteps e ((Sleep d, must) # rest) w = runSteps e rest (sleep d w)"
| "runSteps e ((a, must) # rest) w =
     (case perform e a w of
        (Some err, w') \<Rightarrow> (if must then (Some err, w') else runSteps e rest w')
      | (None, w') \<Rightarrow> runSteps e rest w')"

section \<open>The REST handler\<close>

text \<open>
  The handler's state is the active configuration pointer. A request is its method and
  its body; \<open>Body r c\<close> is the result of JSON-decoding the body onto the configuration
  \<open>c\<close> (an error, or the configuration with the body's fields overlaid), and
  \<open>jsonCopy\<close> is the marshal/unmarshal round trip that PATCH uses to copy the active
  configuration onto a fresh one.
\<close>

datatype http_method = MethodGet | MethodPatch | MethodPut | MethodOther

datatype response =
    SyncResponse "SystemNetworkConfig option"
  | EmptySyncResponse
  | BadRequest string
  | NotImplemented

record request =
  Method :: http_method
  Body :: "SystemNetworkConfig \<Rightarrow> string + SystemNetworkConfig"
  jsonCopy :: "SystemNetworkConfig option \<Rightarrow> SystemNetworkConfig \<Rightarrow> string + SystemNetworkConfig"

record server_state =
  NetworkConfig :: "SystemNetworkConfig option"

definition new_NetworkConfig :: SystemNetworkConfig where
  "new_NetworkConfig =
     \<lparr> Interfaces = [], Bonds = [], VLANs = [], DNS = None, NTP = None, Proxy = None \<rparr>"

text \<open>
  Modelled from the spec: \<open>seed.NetworkConfigHasEmptyDevices\<close> is not among the
  sources. The specification rejects "a configuration with no devices", where "at
  least one of interfaces/bonds/vlans must be non-empty".
\<close>

definition NetworkConfigHasEmptyDevices :: "SystemNetworkConfig \<Rightarrow> bool" where
  "NetworkConfigHasEmptyDevices networkCfg =
     (length (Interfaces networkCfg) = 0 \<and> length (Bonds networkCfg) = 0
      \<and> length (VLANs networkCfg) = 0)"

text \<open>Lines 23 to 50 of the handler: the configuration the request asks for.\<close>

definition decodeRequest :: "request \<Rightarrow> server_state \<Rightarrow> string + SystemNetworkConfig" where
  "decodeRequest r s =
     (case (if Method r = MethodPatch then jsonCopy r (NetworkConfig s) new_NetworkConfig
            else Inr new_NetworkConfig) of
        Inl err \<Rightarrow> Inl err
      | Inr newConfig \<Rightarrow> Body r newConfig)"

definition apiNetwork10 ::
  "environment \<Rightarrow> request \<Rightarrow> server_state \<times> world \<Rightarrow> response \<times> server_state \<times> world" where
  "apiNetwork10 e r sw =
     (case sw of (s, w) \<Rightarrow>
     (case Method r of
        MethodGet \<Rightarrow> (SyncResponse (NetworkConfig s), s, w)
      | MethodOther \<Rightarrow> (NotImplemented, s, w)
      | _ \<Rightarrow>
     (case decodeRequest r s of
        Inl err \<Rightarrow> (BadRequest err, s, w)
      | Inr newConfig \<Rightarrow>
          (if NetworkConfigHasEmptyDevices newConfig
           then (BadRequest ''network configuration has no devices defined'', s, w)
           else
             (let s' = s\<lparr>NetworkConfig := Some newConfig\<rparr>
              in case ApplyNetworkConfiguration e (NetworkConfig s') 10000000000 w of
                   (Some err, w') \<Rightarrow> (BadRequest err, s', w')
                 | (None, w') \<Rightarrow> (EmptySyncResponse, s', w'))))))"

section \<open>Example inputs\<close>

text \<open>
  Concrete environments and configurations at which the theorems below are instantiated.
\<close>

definition exampleEnvironment :: environment where
  "exampleEnvironment =
     \<lparr> fault = (\<lambda>history a. None),
       networkctl_status = (\<lambda>k name.
          if name = ''bond0'' then Some ''State: routable (configured)''
          else Some ''State: no-carrier (configuring)''),
       entryDelay = 0,
       elapsed = (\<lambda>k. 0),
       cancelled = (\<lambda>k. False),
       NetworkSeedExists = False,
       SystemdNetworkConfigPath = ''/run/systemd/network'',
       SystemdTimesyncConfigFile = ''/run/systemd/timesyncd.conf.d/local.conf'',
       filepath_Join = (\<lambda>dir name. dir @ ''/'' @ name) \<rparr>"

definition exampleBond :: "string \<Rightarrow> string \<Rightarrow> SystemNetworkBond" where
  "exampleBond name hwaddr =
     \<lparr> bond_Name = name, bond_Hwaddr = hwaddr, bond_MTU = 0, bond_Addresses = [''dhcp4''],
       bond_Routes = [], bond_VLAN = 0, bond_LLDP = False,
       bond_Members = [hwaddr], bond_Mode = ''active-backup'' \<rparr>"

definition twoBonds :: SystemNetworkConfig where
  "twoBonds =
     \<lparr> Interfaces = [],
       Bonds = [exampleBond ''bond0'' ''AA:BB:CC:DD:EE:01'', exampleBond ''bond1'' ''AA:BB:CC:DD:EE:02''],
       VLANs = [], DNS = None, NTP = None, Proxy = None \<rparr>"

definition startWorld :: world where
  "startWorld = \<lparr> now = 0, effects = [] \<rparr>"

definition cancelledEnvironment :: environment where
  "cancelledEnvironment = exampleEnvironment\<lparr>cancelled := (\<lambda>k. True)\<rparr>"

definition exampleVLAN :: SystemNetworkVLAN where
  "exampleVLAN =
     \<lparr> vlan_Name = ''mgmt'', vlan_Parent = ''bond0'', vlan_ID = 100, vlan_MTU = 0,
       vlan_Addresses = [''dhcp4''], vlan_Routes = [] \<rparr>"

definition vlanOnly :: SystemNetworkConfig where
  "vlanOnly =
     \<lparr> Interfaces = [], Bonds = [], VLANs = [exampleVLAN], DNS = None, NTP = None, Proxy = None \<rparr>"

definition mkdirFails :: environment where
  "mkdirFails =
     exampleEnvironment\<lparr>fault := (\<lambda>history a.
        if a = Mkdir ''/run/systemd/network'' 493 then Some ''mkdir: read-only file system'' else None)\<rparr>"

definition putNoDevices :: request where
  "putNoDevices = \<lparr> Method = MethodPut, Body = (\<lambda>c. Inr c), jsonCopy = (\<lambda>active c. Inr c) \<rparr>"

definition putTwoBonds :: request where
  "putTwoBonds = \<lparr> Method = MethodPut, Body = (\<lambda>c. Inr twoBonds), jsonCopy = (\<lambda>active c. Inr c) \<rparr>"

definition servingVlanOnly :: server_state where
  "servingVlanOnly = \<lparr> NetworkConfig = Some vlanOnly \<rparr>"

text \<open>
  The block that the addressing artifacts carry, with the header of the block that
  follows it.
\<close>

definition dhcpBlock :: string where
  "dhcpBlock = ''[DHCP]\<newline>ClientIdentifier=mac\<newline>RouteMetric=100\<newline>UseMTU=true\<newline>\<newline>[Network]\<newline>''"

definition ethMain :: SystemNetworkInterface where
  "ethMain =
     \<lparr> if_Name = ''eth-main'', if_Hwaddr = ''aa:bb:cc:dd:ee:ff'', if_MTU = 0,
       if_Addresses = [''192.0.2.5/24''], if_Routes = [], if_VLAN = 0, if_LLDP = False \<rparr>"

definition oneInterface :: SystemNetworkConfig where
  "oneInterface =
     \<lparr> Interfaces = [ethMain], Bonds = [], VLANs = [], DNS = None, NTP = None, Proxy = None \<rparr>"

section \<open>Route rendering\<close>

lemma processRoutes_loop_acc:
  "processRoutes_loop routes ret =
     ret @ concat (map (\<lambda>r.
       (if Via r = ''dhcp4'' then ''Gateway=_dhcp4\<newline>''
        else if Via r = ''slaac'' then ''Gateway=_ipv6ra\<newline>''
        else ''Gateway='' @ Via r @ ''\<newline>'') @
       ''Destination='' @ To r @ ''\<newline>'') routes)"
  by (induction routes arbitrary: ret) (simp_all add: Let_def)

text \<open>
  C8. The [Route] block is the header followed, for each route in order, by its
  Gateway line (\<open>_dhcp4\<close> for the token dhcp4, \<open>_ipv6ra\<close> for slaac, the value itself
  otherwise) and directly after it the line Destination=<to>; the route to 0.0.0.0/0
  via dhcp4 renders as Gateway=_dhcp4 followed by Destination=0.0.0.0/0.
\<close>

theorem processRoutes_renders:
  "processRoutes routes =
     ''\<newline>[Route]\<newline>'' @
     concat (map (\<lambda>r.
       ''Gateway='' @
       (if Via r = ''dhcp4'' then ''_dhcp4''
        else if Via r = ''slaac'' then ''_ipv6ra''
        else Via r) @ ''\<newline>'' @
       ''Destination='' @ To r @ ''\<newline>'') routes)
   \<and> processRoutes [\<lparr> To = ''0.0.0.0/0'', Via = ''dhcp4'' \<rparr>] =
     ''\<newline>[Route]\<newline>Gateway=_dhcp4\<newline>Destination=0.0.0.0/0\<newline>''"
proof -
  have body: "\<And>r. (if Via r = ''dhcp4'' then ''Gateway=_dhcp4\<newline>''
        else if Via r = ''slaac'' then ''Gateway=_ipv6ra\<newline>''
        else ''Gateway='' @ Via r @ ''\<newline>'') @
       ''Destination='' @ To r @ ''\<newline>'' =
      ''Gateway='' @
       (if Via r = ''dhcp4'' then ''_dhcp4''
        else if Via r = ''slaac'' then ''_ipv6ra''
        else Via r) @ ''\<newline>'' @
       ''Destination='' @ To r @ ''\<newline>''"
    by simp
  show ?thesis
    unfolding processRoutes_def processRoutes_loop_acc body by simp
qed

section \<open>Address tokens\<close>

lemma text_lines_nonempty: "text_lines s \<noteq> []"
  by (induction s) (auto split: list.splits)

lemma text_lines_segment:
  "newline \<notin> set l \<Longrightarrow> text_lines (l @ newline # rest) = l # text_lines rest"
  by (induction l) (auto split: list.splits simp: text_lines_nonempty)

lemma text_lines_unlines:
  "\<forall>l\<in>set ls. newline \<notin> set l \<Longrightarrow>
   text_lines (concat (map (\<lambda>l. l @ [newline]) ls) @ rest) = ls @ text_lines rest"
  by (induction ls) (simp_all add: text_lines_segment)

lemma processAddresses_loop_acc:
  "processAddresses_loop addrs (ret, h4, h6, ra) =
     (ret @ concat (map (\<lambda>a. (''Address='' @ a) @ [newline])
                      (filter (\<lambda>a. a \<noteq> ''dhcp4'' \<and> a \<noteq> ''dhcp6'' \<and> a \<noteq> ''slaac'') addrs)),
      h4 \<or> ''dhcp4'' \<in> set addrs, h6 \<or> ''dhcp6'' \<in> set addrs, ra \<or> ''slaac'' \<in> set addrs)"
  by (induction addrs arbitrary: ret h4 h6 ra) (auto simp: newline_def)

lemma processAddresses_unlines:
  "processAddresses addrs = concat (map (\<lambda>l. l @ [newline]) (addressLines addrs))"
  by (simp add: processAddresses_def processAddresses_loop_acc addressLines_def
      newline_def Let_def o_def)

lemma text_lines_processAddresses:
  assumes "\<forall>a\<in>set addrs. newline \<notin> set a"
  shows "text_lines (processAddresses addrs) = addressLines addrs @ [[]]"
proof -
  have "\<forall>l\<in>set (addressLines addrs). newline \<notin> set l"
    using assms by (auto simp: addressLines_def newline_def)
  from text_lines_unlines [OF this, of "[]"] show ?thesis
    by (simp add: processAddresses_unlines)
qed

lemma processAddresses_lines:
  assumes "\<forall>a\<in>set addrs. newline \<notin> set a"
  shows "(addrs \<noteq> [] \<longrightarrow> ''LinkLocalAddressing=ipv6'' \<in> set (text_lines (processAddresses addrs)))
    \<and> (addrs = [] \<longrightarrow>
          ''LinkLocalAddressing=no'' \<in> set (text_lines (processAddresses addrs))
        \<and> ''ConfigureWithoutCarrier=yes'' \<in> set (text_lines (processAddresses addrs))
        \<and> ''LinkLocalAddressing=ipv6'' \<notin> set (text_lines (processAddresses addrs)))
    \<and> (''IPv6AcceptRA=true'' \<in> set (text_lines (processAddresses addrs))
          \<longleftrightarrow> ''slaac'' \<in> set addrs)
    \<and> (''IPv6AcceptRA=false'' \<in> set (text_lines (processAddresses addrs))
          \<longleftrightarrow> ''slaac'' \<notin> set addrs)
    \<and> (''DHCP=yes'' \<in> set (text_lines (processAddresses addrs))
          \<longleftrightarrow> ''dhcp4'' \<in> set addrs \<and> ''dhcp6'' \<in> set addrs)
    \<and> (''DHCP=ipv4'' \<in> set (text_lines (processAddresses addrs))
          \<longleftrightarrow> ''dhcp4'' \<in> set addrs \<and> ''dhcp6'' \<notin> set addrs)
    \<and> (''DHCP=ipv6'' \<in> set (text_lines (processAddresses addrs))
          \<longleftrightarrow> ''dhcp6'' \<in> set addrs \<and> ''dhcp4'' \<notin> set addrs)
    \<and> ((\<exists>l\<in>set (text_lines (processAddresses addrs)). HasPrefix l ''DHCP='')
          \<longleftrightarrow> ''dhcp4'' \<in> set addrs \<or> ''dhcp6'' \<in> set addrs)
    \<and> filter (\<lambda>l. HasPrefix l ''Address='') (text_lines (processAddresses addrs)) =
        map (\<lambda>a. ''Address='' @ a)
          (filter (\<lambda>a. a \<noteq> ''dhcp4'' \<and> a \<noteq> ''dhcp6'' \<and> a \<noteq> ''slaac'') addrs)"
proof -
  let ?L = "text_lines (processAddresses addrs)"
  have L: "?L = addressLines addrs @ [[]]"
    by (rule text_lines_processAddresses [OF assms])
  have c1: "addrs \<noteq> [] \<longrightarrow> ''LinkLocalAddressing=ipv6'' \<in> set ?L"
    unfolding L by (simp add: addressLines_def)
  have c2: "addrs = [] \<longrightarrow> ''LinkLocalAddressing=no'' \<in> set ?L
        \<and> ''ConfigureWithoutCarrier=yes'' \<in> set ?L
        \<and> ''LinkLocalAddressing=ipv6'' \<notin> set ?L"
    unfolding L by (simp add: addressLines_def)
  have c3: "''IPv6AcceptRA=true'' \<in> set ?L \<longleftrightarrow> ''slaac'' \<in> set addrs"
    unfolding L by (auto simp: addressLines_def)
  have c4: "''IPv6AcceptRA=false'' \<in> set ?L \<longleftrightarrow> ''slaac'' \<notin> set addrs"
    unfolding L by (auto simp: addressLines_def)
  have c5: "''DHCP=yes'' \<in> set ?L \<longleftrightarrow> ''dhcp4'' \<in> set addrs \<and> ''dhcp6'' \<in> set addrs"
    unfolding L by (auto simp: addressLines_def)
  have c6: "''DHCP=ipv4'' \<in> set ?L \<longleftrightarrow> ''dhcp4'' \<in> set addrs \<and> ''dhcp6'' \<notin> set addrs"
    unfolding L by (auto simp: addressLines_def)
  have c7: "''DHCP=ipv6'' \<in> set ?L \<longleftrightarrow> ''dhcp6'' \<in> set addrs \<and> ''dhcp4'' \<notin> set addrs"
    unfolding L by (auto simp: addressLines_def)
  have c8: "(\<exists>l\<in>set ?L. HasPrefix l ''DHCP='') \<longleftrightarrow> ''dhcp4'' \<in> set addrs \<or> ''dhcp6'' \<in> set addrs"
    unfolding L by (auto simp: addressLines_def)
  have c9: "filter (\<lambda>l. HasPrefix l ''Address='') ?L =
        map (\<lambda>a. ''Address='' @ a)
          (filter (\<lambda>a. a \<noteq> ''dhcp4'' \<and> a \<noteq> ''dhcp6'' \<and> a \<noteq> ''slaac'') addrs)"
    unfolding L by (simp add: addressLines_def filter_map o_def)
  from c1 c2 c3 c4 c5 c6 c7 c8 c9 show ?thesis by blast
qed


section \<open>Address tokens in the artifacts\<close>

lemma text_lines_front_nonempty: "butlast (text_lines (s @ [newline])) \<noteq> []"
  by (induction s) (auto simp: text_lines_nonempty split: list.splits)

lemma text_lines_split:
  "text_lines (s @ newline # t) = butlast (text_lines (s @ [newline])) @ text_lines t"
proof (induction s)
  case Nil
  show ?case by simp
next
  case (Cons c s)
  obtain b bs where B: "butlast (text_lines (s @ [newline])) = b # bs"
    using text_lines_front_nonempty [of s] by (cases "butlast (text_lines (s @ [newline]))") auto
  obtain l ls where L: "text_lines (s @ [newline]) = l # ls"
    using text_lines_nonempty [of "s @ [newline]"] by (cases "text_lines (s @ [newline])") auto
  have ls: "ls \<noteq> []" "l = b" "butlast ls = bs"
    using B L by (auto split: if_splits)
  show ?case
  proof (cases "c = newline")
    case True
    then show ?thesis using Cons.IH L by simp
  next
    case False
    then show ?thesis using Cons.IH B L ls by simp
  qed
qed

lemma text_lines_after_newline:
  assumes "a \<noteq> []" and "last a = newline"
  shows "text_lines (a @ b) = butlast (text_lines a) @ text_lines b"
proof -
  have a: "a = butlast a @ [newline]"
    using assms by (metis append_butlast_last_id)
  have "text_lines (butlast a @ newline # b) =
      butlast (text_lines (butlast a @ [newline])) @ text_lines b"
    by (rule text_lines_split)
  then show ?thesis using a by (metis append_Cons append_Nil append_assoc)
qed

lemma generateNetworkSectionContents_end:
  "generateNetworkSectionContents dns ntp = [] \<or> last (generateNetworkSectionContents dns ntp) = newline"
proof -
  have c: "xs \<noteq> [] \<Longrightarrow> last (concat (map (\<lambda>x. p @ x @ [newline]) xs)) = newline" for p and xs :: "string list"
    by (induction xs) (auto simp: last_append)
  have n: "concat (map (\<lambda>x. p @ x @ [newline]) xs) = [] \<longleftrightarrow> xs = []" for p and xs :: "string list"
    by (cases xs) auto
  show ?thesis
    using c [of _ "''DNS=''"] c [of _ "''NTP=''"]
    by (auto simp: generateNetworkSectionContents_def newline_def last_append
        split: option.splits)
qed

lemma unlines_end:
  "ls \<noteq> [] \<Longrightarrow> concat (map (\<lambda>l. l @ [newline]) ls) \<noteq> []
     \<and> last (concat (map (\<lambda>l. l @ [newline]) ls)) = newline"
  by (induction ls) (auto simp: last_append)

lemma processAddresses_end:
  "processAddresses addrs \<noteq> [] \<and> last (processAddresses addrs) = newline"
proof -
  have "addressLines addrs \<noteq> []" by (simp add: addressLines_def)
  from unlines_end [OF this] show ?thesis by (simp add: processAddresses_unlines)
qed

lemma header_end:
  "h @ dhcpBlock @ generateNetworkSectionContents dns ntp \<noteq> []
   \<and> last (h @ dhcpBlock @ generateNetworkSectionContents dns ntp) = newline"
  using generateNetworkSectionContents_end [of dns ntp]
  by (auto simp: dhcpBlock_def newline_def last_append)

lemma vlan_header_end:
  "h @ dhcpBlock @ ''VLAN=vl'' @ n @ ''\<newline>'' @ generateNetworkSectionContents dns ntp \<noteq> []
   \<and> last (h @ dhcpBlock @ ''VLAN=vl'' @ n @ ''\<newline>'' @ generateNetworkSectionContents dns ntp) = newline"
  using generateNetworkSectionContents_end [of dns ntp]
  by (auto simp: dhcpBlock_def newline_def last_append)

lemma body_lines:
  assumes "pre \<noteq> [] \<and> last pre = newline"
  shows "text_lines (pre @ processAddresses addrs @ post) =
     butlast (text_lines pre) @ butlast (text_lines (processAddresses addrs)) @ text_lines post"
proof -
  have "text_lines (pre @ (processAddresses addrs @ post)) =
      butlast (text_lines pre) @ text_lines (processAddresses addrs @ post)"
    using assms by (intro text_lines_after_newline) simp_all
  moreover have "text_lines (processAddresses addrs @ post) =
      butlast (text_lines (processAddresses addrs)) @ text_lines post"
    using processAddresses_end [of addrs] by (intro text_lines_after_newline) simp_all
  ultimately show ?thesis by simp
qed

lemma interfaceNetwork_body:
  "text_lines (Contents (interfaceNetwork dns ntp i)) =
     butlast (text_lines (''[Match]\<newline>Name='' @ if_Name i @ ''\<newline>\<newline>'' @ dhcpBlock @
                          generateNetworkSectionContents dns ntp)) @
     butlast (text_lines (processAddresses (if_Addresses i))) @
     text_lines ((if length (if_Routes i) > 0 then processRoutes (if_Routes i) else []) @
                 bridgeVLAN (if_VLAN i))"
proof -
  let ?p = "''[Match]\<newline>Name='' @ if_Name i @ ''\<newline>\<newline>''"
  let ?post = "(if length (if_Routes i) > 0 then processRoutes (if_Routes i) else []) @ bridgeVLAN (if_VLAN i)"
  have c: "Contents (interfaceNetwork dns ntp i) =
      (?p @ dhcpBlock @ generateNetworkSectionContents dns ntp) @
      processAddresses (if_Addresses i) @ ?post"
    by (simp add: interfaceNetwork_def dhcpBlock_def)
  have e: "text_lines ((?p @ dhcpBlock @ generateNetworkSectionContents dns ntp) @
      processAddresses (if_Addresses i) @ ?post) =
     butlast (text_lines (?p @ dhcpBlock @ generateNetworkSectionContents dns ntp)) @
     butlast (text_lines (processAddresses (if_Addresses i))) @ text_lines ?post"
    by (rule body_lines) (rule header_end)
  show ?thesis using e unfolding c by (simp only: append_assoc)
qed

lemma bondNetwork_body:
  "text_lines (Contents (bondNetwork dns ntp b)) =
     butlast (text_lines (''[Match]\<newline>Name='' @ bond_Name b @ ''\<newline>\<newline>'' @ dhcpBlock @
                          generateNetworkSectionContents dns ntp)) @
     butlast (text_lines (processAddresses (bond_Addresses b))) @
     text_lines ((if length (bond_Routes b) > 0 then processRoutes (bond_Routes b) else []) @
                 bridgeVLAN (bond_VLAN b))"
proof -
  let ?p = "''[Match]\<newline>Name='' @ bond_Name b @ ''\<newline>\<newline>''"
  let ?post = "(if length (bond_Routes b) > 0 then processRoutes (bond_Routes b) else []) @ bridgeVLAN (bond_VLAN b)"
  have c: "Contents (bondNetwork dns ntp b) =
      (?p @ dhcpBlock @ generateNetworkSectionContents dns ntp) @
      processAddresses (bond_Addresses b) @ ?post"
    by (simp add: bondNetwork_def dhcpBlock_def)
  have e: "text_lines ((?p @ dhcpBlock @ generateNetworkSectionContents dns ntp) @
      processAddresses (bond_Addresses b) @ ?post) =
     butlast (text_lines (?p @ dhcpBlock @ generateNetworkSectionContents dns ntp)) @
     butlast (text_lines (processAddresses (bond_Addresses b))) @ text_lines ?post"
    by (rule body_lines) (rule header_end)
  show ?thesis using e unfolding c by (simp only: append_assoc)
qed

lemma vlanNetwork_body:
  "text_lines (Contents (vlanNetwork dns ntp v)) =
     butlast (text_lines (''[Match]\<newline>Name='' @ vlan_Parent v @ ''\<newline>\<newline>'' @ dhcpBlock @
                          ''VLAN=vl'' @ vlan_Name v @ ''\<newline>'' @
                          generateNetworkSectionContents dns ntp)) @
     butlast (text_lines (processAddresses (vlan_Addresses v))) @
     text_lines (if length (vlan_Routes v) > 0 then processRoutes (vlan_Routes v) else [])"
proof -
  let ?p = "''[Match]\<newline>Name='' @ vlan_Parent v @ ''\<newline>\<newline>''"
  let ?post = "if length (vlan_Routes v) > 0 then processRoutes (vlan_Routes v) else []"
  have c: "Contents (vlanNetwork dns ntp v) =
      (?p @ dhcpBlock @ ''VLAN=vl'' @ vlan_Name v @ ''\<newline>'' @ generateNetworkSectionContents dns ntp) @
      processAddresses (vlan_Addresses v) @ ?post"
    by (simp add: vlanNetwork_def dhcpBlock_def)
  have e: "text_lines ((?p @ dhcpBlock @ ''VLAN=vl'' @ vlan_Name v @ ''\<newline>'' @ generateNetworkSectionContents dns ntp) @
      processAddresses (vlan_Addresses v) @ ?post) =
     butlast (text_lines (?p @ dhcpBlock @ ''VLAN=vl'' @ vlan_Name v @ ''\<newline>'' @ generateNetworkSectionContents dns ntp)) @
     butlast (text_lines (processAddresses (vlan_Addresses v))) @ text_lines ?post"
    by (rule body_lines) (rule vlan_header_end)
  show ?thesis using e unfolding c by (simp only: append_assoc)
qed

lemma generated_addressing_artifacts:
  "(\<forall>i\<in>set (Interfaces cfg). interfaceNetwork (DNS cfg) (NTP cfg) i \<in> set (generateNetworkFileContents cfg))
   \<and> (\<forall>b\<in>set (Bonds cfg). bondNetwork (DNS cfg) (NTP cfg) b \<in> set (generateNetworkFileContents cfg))
   \<and> (\<forall>v\<in>set (VLANs cfg). vlanNetwork (DNS cfg) (NTP cfg) v \<in> set (generateNetworkFileContents cfg))"
  by (auto simp: generateNetworkFileContents_def)

lemma addressBody_lines:
  "\<forall>a\<in>set addrs. newline \<notin> set a \<Longrightarrow> addressBody addrs = addressLines addrs"
  by (simp add: addressBody_def text_lines_processAddresses)

lemma addressingPolicy_addressLines: "addressingPolicy addrs (addressLines addrs)"
  unfolding addressingPolicy_def
  by (intro conjI) (auto simp: addressLines_def filter_map o_def)

lemma addressingPolicy_body:
  "\<forall>a\<in>set addrs. newline \<notin> set a \<Longrightarrow> addressingPolicy addrs (addressBody addrs)"
  by (simp add: addressBody_lines addressingPolicy_addressLines)

text \<open>
  C2. For every interface, bond and VLAN of a configuration, the addressing artifact is
  among the generated network artifacts, and its lines are the lines up to the DNS and
  NTP settings of the [Network] block, then the lines that \<open>processAddresses\<close> derives
  from the device's address tokens, then the lines of the routes and the bridge VLAN
  block. For tokens without a line break those lines follow the rules: a non-empty list
  gives LinkLocalAddressing=ipv6; an empty one gives LinkLocalAddressing=no and
  ConfigureWithoutCarrier=yes and not LinkLocalAddressing=ipv6; IPv6AcceptRA=true is a
  line exactly when slaac is a token and IPv6AcceptRA=false exactly when it is not;
  DHCP=yes, DHCP=ipv4, DHCP=ipv6 are lines exactly when both, only dhcp4, only dhcp6 are
  tokens, and there is no DHCP= line when neither is; the Address= lines are, in order,
  the tokens other than dhcp4, dhcp6 and slaac, verbatim. Whatever the tokens contain,
  the text emitted for them is these lines, each followed by a line break.
\<close>

theorem device_network_body:
  "(\<forall>i\<in>set (Interfaces cfg).
       interfaceNetwork (DNS cfg) (NTP cfg) i \<in> set (generateNetworkFileContents cfg)
     \<and> text_lines (Contents (interfaceNetwork (DNS cfg) (NTP cfg) i)) =
         butlast (text_lines (''[Match]\<newline>Name='' @ if_Name i @ ''\<newline>\<newline>'' @ dhcpBlock @
                              generateNetworkSectionContents (DNS cfg) (NTP cfg))) @
         addressBody (if_Addresses i) @
         text_lines ((if length (if_Routes i) > 0 then processRoutes (if_Routes i) else []) @
                     bridgeVLAN (if_VLAN i))
     \<and> ((\<forall>a\<in>set (if_Addresses i). newline \<notin> set a) \<longrightarrow>
          addressingPolicy (if_Addresses i) (addressBody (if_Addresses i))))
   \<and> (\<forall>b\<in>set (Bonds cfg).
       bondNetwork (DNS cfg) (NTP cfg) b \<in> set (generateNetworkFileContents cfg)
     \<and> text_lines (Contents (bondNetwork (DNS cfg) (NTP cfg) b)) =
         butlast (text_lines (''[Match]\<newline>Name='' @ bond_Name b @ ''\<newline>\<newline>'' @ dhcpBlock @
                              generateNetworkSectionContents (DNS cfg) (NTP cfg))) @
         addressBody (bond_Addresses b) @
         text_lines ((if length (bond_Routes b) > 0 then processRoutes (bond_Routes b) else []) @
                     bridgeVLAN (bond_VLAN b))
     \<and> ((\<forall>a\<in>set (bond_Addresses b). newline \<notin> set a) \<longrightarrow>
          addressingPolicy (bond_Addresses b) (addressBody (bond_Addresses b))))
   \<and> (\<forall>v\<in>set (VLANs cfg).
       vlanNetwork (DNS cfg) (NTP cfg) v \<in> set (generateNetworkFileContents cfg)
     \<and> text_lines (Contents (vlanNetwork (DNS cfg) (NTP cfg) v)) =
         butlast (text_lines (''[Match]\<newline>Name='' @ vlan_Parent v @ ''\<newline>\<newline>'' @ dhcpBlock @
                              ''VLAN=vl'' @ vlan_Name v @ ''\<newline>'' @
                              generateNetworkSectionContents (DNS cfg) (NTP cfg))) @
         addressBody (vlan_Addresses v) @
         text_lines (if length (vlan_Routes v) > 0 then processRoutes (vlan_Routes v) else [])
     \<and> ((\<forall>a\<in>set (vlan_Addresses v). newline \<notin> set a) \<longrightarrow>
          addressingPolicy (vlan_Addresses v) (addressBody (vlan_Addresses v))))
   \<and> processAddresses addrs = concat (map (\<lambda>l. l @ ''\<newline>'') (addressLines addrs))
   \<and> ((\<forall>a\<in>set addrs. newline \<notin> set a) \<longrightarrow>
        text_lines (processAddresses addrs) = addressBody addrs @ [[]]
      \<and> (addrs \<noteq> [] \<longrightarrow> ''LinkLocalAddressing=ipv6'' \<in> set (text_lines (processAddresses addrs)))
      \<and> (addrs = [] \<longrightarrow>
            ''LinkLocalAddressing=no'' \<in> set (text_lines (processAddresses addrs))
          \<and> ''ConfigureWithoutCarrier=yes'' \<in> set (text_lines (processAddresses addrs))
          \<and> ''LinkLocalAddressing=ipv6'' \<notin> set (text_lines (processAddresses addrs)))
      \<and> (''IPv6AcceptRA=true'' \<in> set (text_lines (processAddresses addrs))
            \<longleftrightarrow> ''slaac'' \<in> set addrs)
      \<and> (''IPv6AcceptRA=false'' \<in> set (text_lines (processAddresses addrs))
            \<longleftrightarrow> ''slaac'' \<notin> set addrs)
      \<and> (''DHCP=yes'' \<in> set (text_lines (processAddresses addrs))
            \<longleftrightarrow> ''dhcp4'' \<in> set addrs \<and> ''dhcp6'' \<in> set addrs)
      \<and> (''DHCP=ipv4'' \<in> set (text_lines (processAddresses addrs))
            \<longleftrightarrow> ''dhcp4'' \<in> set addrs \<and> ''dhcp6'' \<notin> set addrs)
      \<and> (''DHCP=ipv6'' \<in> set (text_lines (processAddresses addrs))
            \<longleftrightarrow> ''dhcp6'' \<in> set addrs \<and> ''dhcp4'' \<notin> set addrs)
      \<and> ((\<exists>l\<in>set (text_lines (processAddresses addrs)). HasPrefix l ''DHCP='')
            \<longleftrightarrow> ''dhcp4'' \<in> set addrs \<or> ''dhcp6'' \<in> set addrs)
      \<and> filter (\<lambda>l. HasPrefix l ''Address='') (text_lines (processAddresses addrs)) =
          map (\<lambda>a. ''Address='' @ a)
            (filter (\<lambda>a. a \<noteq> ''dhcp4'' \<and> a \<noteq> ''dhcp6'' \<and> a \<noteq> ''slaac'') addrs))"
proof -
  have i: "\<forall>i\<in>set (Interfaces cfg).
       interfaceNetwork (DNS cfg) (NTP cfg) i \<in> set (generateNetworkFileContents cfg)
     \<and> text_lines (Contents (interfaceNetwork (DNS cfg) (NTP cfg) i)) =
         butlast (text_lines (''[Match]\<newline>Name='' @ if_Name i @ ''\<newline>\<newline>'' @ dhcpBlock @
                              generateNetworkSectionContents (DNS cfg) (NTP cfg))) @
         addressBody (if_Addresses i) @
         text_lines ((if length (if_Routes i) > 0 then processRoutes (if_Routes i) else []) @
                     bridgeVLAN (if_VLAN i))
     \<and> ((\<forall>a\<in>set (if_Addresses i). newline \<notin> set a) \<longrightarrow>
          addressingPolicy (if_Addresses i) (addressBody (if_Addresses i)))"
    using generated_addressing_artifacts [of cfg]
    by (intro ballI conjI impI)
       (blast, simp only: addressBody_def interfaceNetwork_body, rule addressingPolicy_body)
  have b: "\<forall>b\<in>set (Bonds cfg).
       bondNetwork (DNS cfg) (NTP cfg) b \<in> set (generateNetworkFileContents cfg)
     \<and> text_lines (Contents (bondNetwork (DNS cfg) (NTP cfg) b)) =
         butlast (text_lines (''[Match]\<newline>Name='' @ bond_Name b @ ''\<newline>\<newline>'' @ dhcpBlock @
                              generateNetworkSectionContents (DNS cfg) (NTP cfg))) @
         addressBody (bond_Addresses b) @
         text_lines ((if length (bond_Routes b) > 0 then processRoutes (bond_Routes b) else []) @
                     bridgeVLAN (bond_VLAN b))
     \<and> ((\<forall>a\<in>set (bond_Addresses b). newline \<notin> set a) \<longrightarrow>
          addressingPolicy (bond_Addresses b) (addressBody (bond_Addresses b)))"
    using generated_addressing_artifacts [of cfg]
    by (intro ballI conjI impI)
       (blast, simp only: addressBody_def bondNetwork_body, rule addressingPolicy_body)
  have v: "\<forall>v\<in>set (VLANs cfg).
       vlanNetwork (DNS cfg) (NTP cfg) v \<in> set (generateNetworkFileContents cfg)
     \<and> text_lines (Contents (vlanNetwork (DNS cfg) (NTP cfg) v)) =
         butlast (text_lines (''[Match]\<newline>Name='' @ vlan_Parent v @ ''\<newline>\<newline>'' @ dhcpBlock @
                              ''VLAN=vl'' @ vlan_Name v @ ''\<newline>'' @
                              generateNetworkSectionContents (DNS cfg) (NTP cfg))) @
         addressBody (vlan_Addresses v) @
         text_lines (if length (vlan_Routes v) > 0 then processRoutes (vlan_Routes v) else [])
     \<and> ((\<forall>a\<in>set (vlan_Addresses v). newline \<notin> set a) \<longrightarrow>
          addressingPolicy (vlan_Addresses v) (addressBody (vlan_Addresses v)))"
    using generated_addressing_artifacts [of cfg]
    by (intro ballI conjI impI)
       (blast, simp only: addressBody_def vlanNetwork_body, rule addressingPolicy_body)
  have u: "processAddresses addrs = concat (map (\<lambda>l. l @ ''\<newline>'') (addressLines addrs))"
    using processAddresses_unlines [of addrs] by (simp add: newline_def)
  have l: "(\<forall>a\<in>set addrs. newline \<notin> set a) \<longrightarrow>
        text_lines (processAddresses addrs) = addressBody addrs @ [[]]
      \<and> (addrs \<noteq> [] \<longrightarrow> ''LinkLocalAddressing=ipv6'' \<in> set (text_lines (processAddresses addrs)))
      \<and> (addrs = [] \<longrightarrow>
            ''LinkLocalAddressing=no'' \<in> set (text_lines (processAddresses addrs))
          \<and> ''ConfigureWithoutCarrier=yes'' \<in> set (text_lines (processAddresses addrs))
          \<and> ''LinkLocalAddressing=ipv6'' \<notin> set (text_lines (processAddresses addrs)))
      \<and> (''IPv6AcceptRA=true'' \<in> set (text_lines (processAddresses addrs))
            \<longleftrightarrow> ''slaac'' \<in> set addrs)
      \<and> (''IPv6AcceptRA=false'' \<in> set (text_lines (processAddresses addrs))
            \<longleftrightarrow> ''slaac'' \<notin> set addrs)
      \<and> (''DHCP=yes'' \<in> set (text_lines (processAddresses addrs))
            \<longleftrightarrow> ''dhcp4'' \<in> set addrs \<and> ''dhcp6'' \<in> set addrs)
      \<and> (''DHCP=ipv4'' \<in> set (text_lines (processAddresses addrs))
            \<longleftrightarrow> ''dhcp4'' \<in> set addrs \<and> ''dhcp6'' \<notin> set addrs)
      \<and> (''DHCP=ipv6'' \<in> set (text_lines (processAddresses addrs))
            \<longleftrightarrow> ''dhcp6'' \<in> set addrs \<and> ''dhcp4'' \<notin> set addrs)
      \<and> ((\<exists>l\<in>set (text_lines (processAddresses addrs)). HasPrefix l ''DHCP='')
            \<longleftrightarrow> ''dhcp4'' \<in> set addrs \<or> ''dhcp6'' \<in> set addrs)
      \<and> filter (\<lambda>l. HasPrefix l ''Address='') (text_lines (processAddresses addrs)) =
          map (\<lambda>a. ''Address='' @ a)
            (filter (\<lambda>a. a \<noteq> ''dhcp4'' \<and> a \<noteq> ''dhcp6'' \<and> a \<noteq> ''slaac'') addrs)"
  proof
    assume h: "\<forall>a\<in>set addrs. newline \<notin> set a"
    have t: "text_lines (processAddresses addrs) = addressBody addrs @ [[]]"
      using h by (simp add: addressBody_lines text_lines_processAddresses)
    from t processAddresses_lines [OF h]
    show "text_lines (processAddresses addrs) = addressBody addrs @ [[]]
      \<and> (addrs \<noteq> [] \<longrightarrow> ''LinkLocalAddressing=ipv6'' \<in> set (text_lines (processAddresses addrs)))
      \<and> (addrs = [] \<longrightarrow>
            ''LinkLocalAddressing=no'' \<in> set (text_lines (processAddresses addrs))
          \<and> ''ConfigureWithoutCarrier=yes'' \<in> set (text_lines (processAddresses addrs))
          \<and> ''LinkLocalAddressing=ipv6'' \<notin> set (text_lines (processAddresses addrs)))
      \<and> (''IPv6AcceptRA=true'' \<in> set (text_lines (processAddresses addrs))
            \<longleftrightarrow> ''slaac'' \<in> set addrs)
      \<and> (''IPv6AcceptRA=false'' \<in> set (text_lines (processAddresses addrs))
            \<longleftrightarrow> ''slaac'' \<notin> set addrs)
      \<and> (''DHCP=yes'' \<in> set (text_lines (processAddresses addrs))
            \<longleftrightarrow> ''dhcp4'' \<in> set addrs \<and> ''dhcp6'' \<in> set addrs)
      \<and> (''DHCP=ipv4'' \<in> set (text_lines (processAddresses addrs))
            \<longleftrightarrow> ''dhcp4'' \<in> set addrs \<and> ''dhcp6'' \<notin> set addrs)
      \<and> (''DHCP=ipv6'' \<in> set (text_lines (processAddresses addrs))
            \<longleftrightarrow> ''dhcp6'' \<in> set addrs \<and> ''dhcp4'' \<notin> set addrs)
      \<and> ((\<exists>l\<in>set (text_lines (processAddresses addrs)). HasPrefix l ''DHCP='')
            \<longleftrightarrow> ''dhcp4'' \<in> set addrs \<or> ''dhcp6'' \<in> set addrs)
      \<and> filter (\<lambda>l. HasPrefix l ''Address='') (text_lines (processAddresses addrs)) =
          map (\<lambda>a. ''Address='' @ a)
            (filter (\<lambda>a. a \<noteq> ''dhcp4'' \<and> a \<noteq> ''dhcp6'' \<and> a \<noteq> ''slaac'') addrs)"
      by (intro conjI) blast+
  qed
  from i b v u l show ?thesis by (intro conjI)
qed

theorem device_network_body_witness:
  "vlanNetwork None None exampleVLAN \<in> set (generateNetworkFileContents vlanOnly)
   \<and> addressBody (vlan_Addresses exampleVLAN) =
       [''LinkLocalAddressing=ipv6'', ''IPv6AcceptRA=false'', ''DHCP=ipv4'']
   \<and> ''DHCP=ipv4'' \<in> set (text_lines (Contents (vlanNetwork None None exampleVLAN)))
   \<and> ''IPv6AcceptRA=false'' \<in> set (text_lines (Contents (vlanNetwork None None exampleVLAN)))
   \<and> addressingPolicy (vlan_Addresses exampleVLAN) (addressBody (vlan_Addresses exampleVLAN))
   \<and> text_lines (processAddresses [''dhcp4'', ''slaac'', ''192.0.2.5/24'']) =
       [''LinkLocalAddressing=ipv6'', ''Address=192.0.2.5/24'', ''IPv6AcceptRA=true'', ''DHCP=ipv4'', []]
   \<and> ''DHCP=ipv4'' \<in> set (text_lines (processAddresses [''dhcp4'', ''slaac'', ''192.0.2.5/24'']))
   \<and> ''IPv6AcceptRA=true'' \<in> set (text_lines (processAddresses [''dhcp4'', ''slaac'', ''192.0.2.5/24'']))
   \<and> filter (\<lambda>l. HasPrefix l ''Address='')
        (text_lines (processAddresses [''dhcp4'', ''slaac'', ''192.0.2.5/24''])) = [''Address=192.0.2.5/24'']
   \<and> ''LinkLocalAddressing=no'' \<in> set (text_lines (processAddresses []))
   \<and> ''ConfigureWithoutCarrier=yes'' \<in> set (text_lines (processAddresses []))
   \<and> ''LinkLocalAddressing=ipv6'' \<notin> set (text_lines (processAddresses []))"
proof -
  note t1 = device_network_body [of vlanOnly "[''dhcp4'', ''slaac'', ''192.0.2.5/24'']"]
  note t2 = device_network_body [of vlanOnly "[]"]
  have m: "exampleVLAN \<in> set (VLANs vlanOnly)"
    by (simp add: vlanOnly_def)
  have dn: "DNS vlanOnly = None" "NTP vlanOnly = None"
    by (simp_all add: vlanOnly_def)
  have hv: "\<forall>a\<in>set (vlan_Addresses exampleVLAN). newline \<notin> set a"
    by (simp add: exampleVLAN_def newline_def)
  have h: "\<forall>a\<in>set [''dhcp4'', ''slaac'', ''192.0.2.5/24'']. newline \<notin> set a"
    by (simp add: newline_def)
  have e: "\<forall>a\<in>set ([] :: string list). newline \<notin> set a"
    by simp
  have "vlanNetwork (DNS vlanOnly) (NTP vlanOnly) exampleVLAN \<in> set (generateNetworkFileContents vlanOnly)"
    using t1 m by blast
  then have a: "vlanNetwork None None exampleVLAN \<in> set (generateNetworkFileContents vlanOnly)"
    by (simp only: dn)
  have b: "addressBody (vlan_Addresses exampleVLAN) =
       [''LinkLocalAddressing=ipv6'', ''IPv6AcceptRA=false'', ''DHCP=ipv4'']"
    using addressBody_lines [OF hv] by (simp add: addressLines_def exampleVLAN_def)
  have "text_lines (Contents (vlanNetwork (DNS vlanOnly) (NTP vlanOnly) exampleVLAN)) =
         butlast (text_lines (''[Match]\<newline>Name='' @ vlan_Parent exampleVLAN @ ''\<newline>\<newline>'' @ dhcpBlock @
                              ''VLAN=vl'' @ vlan_Name exampleVLAN @ ''\<newline>'' @
                              generateNetworkSectionContents (DNS vlanOnly) (NTP vlanOnly))) @
         addressBody (vlan_Addresses exampleVLAN) @
         text_lines (if length (vlan_Routes exampleVLAN) > 0 then processRoutes (vlan_Routes exampleVLAN) else [])"
    using t1 m by blast
  then have l: "text_lines (Contents (vlanNetwork None None exampleVLAN)) =
         butlast (text_lines (''[Match]\<newline>Name='' @ vlan_Parent exampleVLAN @ ''\<newline>\<newline>'' @ dhcpBlock @
                              ''VLAN=vl'' @ vlan_Name exampleVLAN @ ''\<newline>'' @
                              generateNetworkSectionContents None None)) @
         addressBody (vlan_Addresses exampleVLAN) @
         text_lines (if length (vlan_Routes exampleVLAN) > 0 then processRoutes (vlan_Routes exampleVLAN) else [])"
    by (simp only: dn)
  have c: "''DHCP=ipv4'' \<in> set (text_lines (Contents (vlanNetwork None None exampleVLAN)))"
    unfolding l b by simp
  have d: "''IPv6AcceptRA=false'' \<in> set (text_lines (Contents (vlanNetwork None None exampleVLAN)))"
    unfolding l b by simp
  have p: "addressingPolicy (vlan_Addresses exampleVLAN) (addressBody (vlan_Addresses exampleVLAN))"
    using t1 m hv by blast
  have v: "text_lines (processAddresses [''dhcp4'', ''slaac'', ''192.0.2.5/24'']) =
       [''LinkLocalAddressing=ipv6'', ''Address=192.0.2.5/24'', ''IPv6AcceptRA=true'', ''DHCP=ipv4'', []]"
    by (simp add: processAddresses_def newline_def)
  have f: "''DHCP=ipv4'' \<in> set (text_lines (processAddresses [''dhcp4'', ''slaac'', ''192.0.2.5/24'']))
   \<and> ''IPv6AcceptRA=true'' \<in> set (text_lines (processAddresses [''dhcp4'', ''slaac'', ''192.0.2.5/24'']))
   \<and> filter (\<lambda>l. HasPrefix l ''Address='')
        (text_lines (processAddresses [''dhcp4'', ''slaac'', ''192.0.2.5/24''])) = [''Address=192.0.2.5/24'']"
  proof -
    have "filter (\<lambda>l. HasPrefix l ''Address='')
        (text_lines (processAddresses [''dhcp4'', ''slaac'', ''192.0.2.5/24''])) =
        map (\<lambda>a. ''Address='' @ a)
          (filter (\<lambda>a. a \<noteq> ''dhcp4'' \<and> a \<noteq> ''dhcp6'' \<and> a \<noteq> ''slaac'')
             [''dhcp4'', ''slaac'', ''192.0.2.5/24''])"
      using t1 h by blast
    moreover have "''DHCP=ipv4'' \<in> set (text_lines (processAddresses [''dhcp4'', ''slaac'', ''192.0.2.5/24'']))
        \<longleftrightarrow> ''dhcp4'' \<in> set [''dhcp4'', ''slaac'', ''192.0.2.5/24'']
            \<and> ''dhcp6'' \<notin> set [''dhcp4'', ''slaac'', ''192.0.2.5/24'']"
      using t1 h by blast
    moreover have "''IPv6AcceptRA=true'' \<in> set (text_lines (processAddresses [''dhcp4'', ''slaac'', ''192.0.2.5/24'']))
        \<longleftrightarrow> ''slaac'' \<in> set [''dhcp4'', ''slaac'', ''192.0.2.5/24'']"
      using t1 h by blast
    ultimately show ?thesis by simp
  qed
  have g: "''LinkLocalAddressing=no'' \<in> set (text_lines (processAddresses []))
   \<and> ''ConfigureWithoutCarrier=yes'' \<in> set (text_lines (processAddresses []))
   \<and> ''LinkLocalAddressing=ipv6'' \<notin> set (text_lines (processAddresses []))"
    using t2 e by blast
  from a b c d p v f g show ?thesis by blast
qed

section \<open>The convergence wait\<close>

lemma rangeRoutable_acc:
  "rangeRoutable e k names (a, b, log) =
     (a \<and> foldr (\<and>) (map (routable e k) names) True,
      b \<or> foldr (\<or>) (map (routable e k) names) False,
      log @ map (\<lambda>n. RunCommand [''networkctl'', ''status'', n]) names)"
  by (induction names arbitrary: a b log) (auto simp: isRoutable_def)

lemma pollCategory_fst:
  "fst (pollCategory e k ra names log) =
     (names = [] \<or> categoryVerdict ra (map (routable e k) names))"
  by (cases names) (auto simp: pollCategory_def rangeRoutable_acc categoryVerdict_def simp del: rangeRoutable.simps)

lemma pollCategory_snd:
  "snd (pollCategory e k ra names log) =
     log @ map (\<lambda>n. RunCommand [''networkctl'', ''status'', n]) names"
  by (cases names) (auto simp: pollCategory_def rangeRoutable_acc simp del: rangeRoutable.simps)

lemma pollCategory_eq:
  "pollCategory e k ra names log =
     (names = [] \<or> categoryVerdict ra (map (routable e k) names),
      log @ map (\<lambda>n. RunCommand [''networkctl'', ''status'', n]) names)"
  using pollCategory_fst [of e k ra names log] pollCategory_snd [of e k ra names log]
  by (cases "pollCategory e k ra names log") simp

lemma pollCycle_fst:
  "fst (pollCycle e cfg ra k log) = cycleVerdict e cfg ra k"
proof -
  obtain v1 l1 where p1: "pollCategory e k ra (map if_Name (Interfaces cfg)) log = (v1, l1)"
    by (cases "pollCategory e k ra (map if_Name (Interfaces cfg)) log")
  obtain v2 l2 where p2: "pollCategory e k ra (map bond_Name (Bonds cfg)) l1 = (v2, l2)"
    by (cases "pollCategory e k ra (map bond_Name (Bonds cfg)) l1")
  obtain v3 l3 where p3: "pollCategory e k ra (map vlan_Name (VLANs cfg)) l2 = (v3, l3)"
    by (cases "pollCategory e k ra (map vlan_Name (VLANs cfg)) l2")
  have v1: "v1 = (Interfaces cfg = [] \<or> categoryVerdict ra (map (\<lambda>i. routable e k (if_Name i)) (Interfaces cfg)))"
    using pollCategory_fst [of e k ra "map if_Name (Interfaces cfg)" log] p1 by (simp add: o_def)
  have v2: "v2 = (Bonds cfg = [] \<or> categoryVerdict ra (map (\<lambda>b. routable e k (bond_Name b)) (Bonds cfg)))"
    using pollCategory_fst [of e k ra "map bond_Name (Bonds cfg)" l1] p2 by (simp add: o_def)
  have v3: "v3 = (VLANs cfg = [] \<or> categoryVerdict ra (map (\<lambda>v. routable e k (vlan_Name v)) (VLANs cfg)))"
    using pollCategory_fst [of e k ra "map vlan_Name (VLANs cfg)" l2] p3 by (simp add: o_def)
  have "fst (pollCycle e cfg ra k log) = (v1 \<and> v2 \<and> v3)"
    by (cases v1; cases v2; cases v3) (simp_all add: pollCycle_def p1 p2 p3)
  then show ?thesis
    by (simp add: cycleVerdict_def v1 v2 v3)
qed

lemma pollCycle_snd:
  "snd (pollCycle e cfg ra k log) =
     log @ map (\<lambda>i. RunCommand [''networkctl'', ''status'', if_Name i]) (Interfaces cfg) @
     (if Interfaces cfg = [] \<or> categoryVerdict ra (map (\<lambda>i. routable e k (if_Name i)) (Interfaces cfg))
      then map (\<lambda>b. RunCommand [''networkctl'', ''status'', bond_Name b]) (Bonds cfg) @
           (if Bonds cfg = [] \<or> categoryVerdict ra (map (\<lambda>b. routable e k (bond_Name b)) (Bonds cfg))
            then map (\<lambda>v. RunCommand [''networkctl'', ''status'', vlan_Name v]) (VLANs cfg)
            else [])
      else [])"
  by (simp add: pollCycle_def pollCategory_eq o_def split: bool.splits)

lemma checkTime_mono: "i \<le> j \<Longrightarrow> checkTime e t i \<le> checkTime e t j"
  by (induction j) (auto simp: le_Suc_eq)

lemma waitLoop_timed_out:
  "now w > endTime \<Longrightarrow>
   waitLoop e cfg ra endTime k w = (Some ''timed out waiting for network to become routable'', w)"
  by (subst waitLoop.simps) simp

lemma waitLoop_done:
  "\<not> now w > endTime \<Longrightarrow> cycleVerdict e cfg ra k \<Longrightarrow>
   waitLoop e cfg ra endTime k w =
     (None, w\<lparr>now := now w + 500000000 + int (elapsed e k),
               effects := snd (pollCycle e cfg ra k (effects w @ [Sleep 500000000]))\<rparr>)"
  by (subst waitLoop.simps) (simp add: Let_def pollCycle_fst)

lemma waitLoop_continue:
  "\<not> now w > endTime \<Longrightarrow> \<not> cycleVerdict e cfg ra k \<Longrightarrow>
   waitLoop e cfg ra endTime k w =
     waitLoop e cfg ra endTime (Suc k)
       (w\<lparr>now := now w + 500000000 + int (elapsed e k),
          effects := snd (pollCycle e cfg ra k (effects w @ [Sleep 500000000]))\<rparr>)"
  by (subst waitLoop.simps) (simp add: Let_def pollCycle_fst)

lemma waitLoop_success:
  assumes "cycleVerdict e cfg ra j"
    and "\<forall>i. k \<le> i \<and> i < j \<longrightarrow> \<not> cycleVerdict e cfg ra i"
    and "k \<le> j"
    and "checkTime e t j \<le> endTime"
    and "now w = checkTime e t k"
  shows "fst (waitLoop e cfg ra endTime k w) = None
       \<and> now (snd (waitLoop e cfg ra endTime k w)) = checkTime e t (Suc j)"
  using assms
proof (induction "j - k" arbitrary: k w)
  case 0
  then have kj: "k = j" by simp
  have le: "\<not> now w > endTime" using 0 kj by simp
  show ?case
    using 0 kj le by (subst (1 2) waitLoop.simps) (simp add: Let_def pollCycle_fst)
next
  case (Suc d)
  then have lt: "k < j" by simp
  have "checkTime e t k \<le> checkTime e t j" using lt by (simp add: checkTime_mono)
  then have le: "\<not> now w > endTime" using Suc.prems by simp
  have nv: "\<not> cycleVerdict e cfg ra k" using Suc.prems lt by simp
  let ?w' = "w\<lparr>now := now w + 500000000 + int (elapsed e k),
                effects := snd (pollCycle e cfg ra k (effects w @ [Sleep 500000000]))\<rparr>"
  have step: "waitLoop e cfg ra endTime k w = waitLoop e cfg ra endTime (Suc k) ?w'"
    using le nv by (subst waitLoop.simps) (simp add: Let_def pollCycle_fst)
  have "fst (waitLoop e cfg ra endTime (Suc k) ?w') = None
       \<and> now (snd (waitLoop e cfg ra endTime (Suc k) ?w')) = checkTime e t (Suc j)"
  proof (rule Suc.hyps(1))
    show "d = j - Suc k" using Suc.hyps(2) by simp
    show "cycleVerdict e cfg ra j" by (rule Suc.prems(1))
    show "\<forall>i. Suc k \<le> i \<and> i < j \<longrightarrow> \<not> cycleVerdict e cfg ra i" using Suc.prems(2) by simp
    show "Suc k \<le> j" using lt by simp
    show "checkTime e t j \<le> endTime" by (rule Suc.prems(4))
    show "now ?w' = checkTime e t (Suc k)" using Suc.prems(5) by simp
  qed
  then show ?case by (simp only: step)
qed

lemma waitLoop_timeout:
  assumes "\<forall>j. k \<le> j \<and> checkTime e t j \<le> endTime \<longrightarrow> \<not> cycleVerdict e cfg ra j"
    and "now w = checkTime e t k"
  shows "fst (waitLoop e cfg ra endTime k w) = Some ''timed out waiting for network to become routable''
       \<and> now (snd (waitLoop e cfg ra endTime k w)) > endTime"
  using assms
proof (induction "nat (endTime + 1 - now w)" arbitrary: k w rule: less_induct)
  case less
  show ?case
  proof (cases "now w > endTime")
    case True
    then show ?thesis by (subst (1 2) waitLoop.simps) simp
  next
    case False
    then have nv: "\<not> cycleVerdict e cfg ra k" using less.prems by simp
    let ?w' = "w\<lparr>now := now w + 500000000 + int (elapsed e k),
                  effects := snd (pollCycle e cfg ra k (effects w @ [Sleep 500000000]))\<rparr>"
    have step: "waitLoop e cfg ra endTime k w = waitLoop e cfg ra endTime (Suc k) ?w'"
      using False nv by (subst waitLoop.simps) (simp add: Let_def pollCycle_fst)
    have "fst (waitLoop e cfg ra endTime (Suc k) ?w') = Some ''timed out waiting for network to become routable''
       \<and> now (snd (waitLoop e cfg ra endTime (Suc k) ?w')) > endTime"
    proof (rule less.hyps)
      show "nat (endTime + 1 - now ?w') < nat (endTime + 1 - now w)" using False by simp
      show "\<forall>j. Suc k \<le> j \<and> checkTime e t j \<le> endTime \<longrightarrow> \<not> cycleVerdict e cfg ra j"
        using less.prems(1) by simp
      show "now ?w' = checkTime e t (Suc k)" using less.prems(2) by simp
    qed
    then show ?thesis by (simp only: step)
  qed
qed

lemma example_routable:
  "routable exampleEnvironment k ''bond0''" "\<not> routable exampleEnvironment k ''bond1''"
  by (simp_all add: routable_def networkctl_def exampleEnvironment_def)

text \<open>
  C1. A poll cycle \<open>j\<close> takes place when the clock at its deadline check has not passed
  the deadline. The wait succeeds exactly when some cycle that takes place is good
  (every non-empty category's verdict holds: the conjunction of its members'
  routability when all are required, their disjunction otherwise), and then it returns
  right after polling the first good cycle; otherwise it returns the timeout error, and
  only after the deadline has passed. With two bonds of which exactly one is routable,
  requiring all gives the timeout error, and requiring any gives success (for a timeout
  that has not run out at the first deadline check, so that the first cycle takes
  place).
\<close>

theorem waitForNetworkRoutable_quorum:
  "fst (waitForNetworkRoutable e cfg timeout requireAll w) =
      (if \<exists>j. cycleVerdict e cfg requireAll j \<and> checkTime e (firstCheck e w) j \<le> now w + timeout
       then None
       else Some ''timed out waiting for network to become routable'')
   \<and> ((\<exists>j. cycleVerdict e cfg requireAll j \<and> checkTime e (firstCheck e w) j \<le> now w + timeout) \<longrightarrow>
        now (snd (waitForNetworkRoutable e cfg timeout requireAll w)) =
          checkTime e (firstCheck e w) (Suc (LEAST j. cycleVerdict e cfg requireAll j)))
   \<and> (\<not> (\<exists>j. cycleVerdict e cfg requireAll j \<and> checkTime e (firstCheck e w) j \<le> now w + timeout) \<longrightarrow>
        now (snd (waitForNetworkRoutable e cfg timeout requireAll w)) > now w + timeout)
   \<and> (Interfaces cfg = [] \<and> VLANs cfg = [] \<and> Bonds cfg = [b1, b2]
        \<and> (\<forall>k. routable e k (bond_Name b1) \<noteq> routable e k (bond_Name b2)) \<longrightarrow>
        fst (waitForNetworkRoutable e cfg timeout True w) =
          Some ''timed out waiting for network to become routable''
        \<and> (int (entryDelay e) \<le> timeout \<longrightarrow> fst (waitForNetworkRoutable e cfg timeout False w) = None))"
proof -
  have general: "\<And>ra.
      (\<exists>j. cycleVerdict e cfg ra j \<and> checkTime e (firstCheck e w) j \<le> now w + timeout) \<Longrightarrow>
        fst (waitForNetworkRoutable e cfg timeout ra w) = None
        \<and> now (snd (waitForNetworkRoutable e cfg timeout ra w)) =
            checkTime e (firstCheck e w) (Suc (LEAST j. cycleVerdict e cfg ra j))"
  proof -
    fix ra
    assume "\<exists>j. cycleVerdict e cfg ra j \<and> checkTime e (firstCheck e w) j \<le> now w + timeout"
    then obtain j where j: "cycleVerdict e cfg ra j" "checkTime e (firstCheck e w) j \<le> now w + timeout"
      by blast
    let ?L = "LEAST j. cycleVerdict e cfg ra j"
    have L: "cycleVerdict e cfg ra ?L" using j(1) by (rule LeastI)
    have "?L \<le> j" using j(1) by (rule Least_le)
    then have "checkTime e (firstCheck e w) ?L \<le> checkTime e (firstCheck e w) j" by (rule checkTime_mono)
    then have t: "checkTime e (firstCheck e w) ?L \<le> now w + timeout" using j(2) by simp
    have first: "\<forall>i. 0 \<le> i \<and> i < ?L \<longrightarrow> \<not> cycleVerdict e cfg ra i"
      using not_less_Least by blast
    show "fst (waitForNetworkRoutable e cfg timeout ra w) = None
        \<and> now (snd (waitForNetworkRoutable e cfg timeout ra w)) = checkTime e (firstCheck e w) (Suc ?L)"
      unfolding waitForNetworkRoutable_def
      by (rule waitLoop_success [OF L first _ t]) simp_all
  qed
  have never: "\<And>ra.
      \<not> (\<exists>j. cycleVerdict e cfg ra j \<and> checkTime e (firstCheck e w) j \<le> now w + timeout) \<Longrightarrow>
        fst (waitForNetworkRoutable e cfg timeout ra w) =
          Some ''timed out waiting for network to become routable''
        \<and> now (snd (waitForNetworkRoutable e cfg timeout ra w)) > now w + timeout"
  proof -
    fix ra
    assume "\<not> (\<exists>j. cycleVerdict e cfg ra j \<and> checkTime e (firstCheck e w) j \<le> now w + timeout)"
    then have none: "\<forall>j. 0 \<le> j \<and> checkTime e (firstCheck e w) j \<le> now w + timeout \<longrightarrow> \<not> cycleVerdict e cfg ra j"
      by blast
    show "fst (waitForNetworkRoutable e cfg timeout ra w) =
          Some ''timed out waiting for network to become routable''
        \<and> now (snd (waitForNetworkRoutable e cfg timeout ra w)) > now w + timeout"
      unfolding waitForNetworkRoutable_def
      by (rule waitLoop_timeout [OF none]) simp
  qed
  have bonds: "Interfaces cfg = [] \<and> VLANs cfg = [] \<and> Bonds cfg = [b1, b2]
        \<and> (\<forall>k. routable e k (bond_Name b1) \<noteq> routable e k (bond_Name b2)) \<longrightarrow>
        fst (waitForNetworkRoutable e cfg timeout True w) =
          Some ''timed out waiting for network to become routable''
        \<and> (int (entryDelay e) \<le> timeout \<longrightarrow> fst (waitForNetworkRoutable e cfg timeout False w) = None)"
  proof (intro impI, elim conjE)
    assume cfg: "Interfaces cfg = []" "VLANs cfg = []" "Bonds cfg = [b1, b2]"
      and one: "\<forall>k. routable e k (bond_Name b1) \<noteq> routable e k (bond_Name b2)"
    have all: "\<And>j. \<not> cycleVerdict e cfg True j"
      using one by (auto simp: cycleVerdict_def categoryVerdict_def cfg)
    have any: "cycleVerdict e cfg False 0"
      using one by (auto simp: cycleVerdict_def categoryVerdict_def cfg)
    have a: "fst (waitForNetworkRoutable e cfg timeout True w) =
          Some ''timed out waiting for network to become routable''"
      using never [of True] all by blast
    have b: "int (entryDelay e) \<le> timeout \<longrightarrow> fst (waitForNetworkRoutable e cfg timeout False w) = None"
    proof
      assume "int (entryDelay e) \<le> timeout"
      then have "cycleVerdict e cfg False 0 \<and> checkTime e (firstCheck e w) 0 \<le> now w + timeout"
        using any by (simp add: firstCheck_def)
      then have "\<exists>j. cycleVerdict e cfg False j \<and> checkTime e (firstCheck e w) j \<le> now w + timeout" ..
      from general [OF this] show "fst (waitForNetworkRoutable e cfg timeout False w) = None" ..
    qed
    show "fst (waitForNetworkRoutable e cfg timeout True w) =
          Some ''timed out waiting for network to become routable''
        \<and> (int (entryDelay e) \<le> timeout \<longrightarrow> fst (waitForNetworkRoutable e cfg timeout False w) = None)"
      using a b ..
  qed
  show ?thesis
    using general [of requireAll] never [of requireAll] bonds
    by (cases "\<exists>j. cycleVerdict e cfg requireAll j \<and> checkTime e (firstCheck e w) j \<le> now w + timeout")
       (simp_all only: if_True if_False simp_thms)
qed

theorem waitForNetworkRoutable_quorum_witness:
  "fst (waitForNetworkRoutable exampleEnvironment twoBonds 1000000000 True startWorld) =
     Some ''timed out waiting for network to become routable''
   \<and> fst (waitForNetworkRoutable exampleEnvironment twoBonds 1000000000 False startWorld) = None
   \<and> now (snd (waitForNetworkRoutable exampleEnvironment twoBonds 1000000000 False startWorld)) =
       500000000
   \<and> now (snd (waitForNetworkRoutable exampleEnvironment twoBonds 1000000000 True startWorld)) >
       1000000000"
proof -
  have fc: "firstCheck exampleEnvironment startWorld = 0"
    by (simp add: firstCheck_def exampleEnvironment_def startWorld_def)
  have ns: "now startWorld = 0"
    by (simp add: startWorld_def)
  have v0: "cycleVerdict exampleEnvironment twoBonds False 0"
    by (simp add: cycleVerdict_def categoryVerdict_def twoBonds_def exampleBond_def example_routable)
  have nv: "\<not> cycleVerdict exampleEnvironment twoBonds True j" for j
    by (simp add: cycleVerdict_def categoryVerdict_def twoBonds_def exampleBond_def example_routable)
  have ex: "\<exists>j. cycleVerdict exampleEnvironment twoBonds False j
      \<and> checkTime exampleEnvironment (firstCheck exampleEnvironment startWorld) j \<le> now startWorld + 1000000000"
    using v0 by (intro exI [of _ 0]) (simp add: fc ns)
  have least: "(LEAST j. cycleVerdict exampleEnvironment twoBonds False j) = 0"
    using v0 by (rule Least_eq_0)
  have hyp: "Interfaces twoBonds = [] \<and> VLANs twoBonds = []
      \<and> Bonds twoBonds = [exampleBond ''bond0'' ''AA:BB:CC:DD:EE:01'', exampleBond ''bond1'' ''AA:BB:CC:DD:EE:02'']
      \<and> (\<forall>k. routable exampleEnvironment k (bond_Name (exampleBond ''bond0'' ''AA:BB:CC:DD:EE:01''))
             \<noteq> routable exampleEnvironment k (bond_Name (exampleBond ''bond1'' ''AA:BB:CC:DD:EE:02'')))"
    by (simp add: twoBonds_def exampleBond_def example_routable)
  have t: "int (entryDelay exampleEnvironment) \<le> 1000000000"
    by (simp add: exampleEnvironment_def)
  note q1 = waitForNetworkRoutable_quorum [of exampleEnvironment twoBonds 1000000000 False startWorld
      "exampleBond ''bond0'' ''AA:BB:CC:DD:EE:01''" "exampleBond ''bond1'' ''AA:BB:CC:DD:EE:02''"]
  note q2 = waitForNetworkRoutable_quorum [of exampleEnvironment twoBonds 1000000000 True startWorld
      "exampleBond ''bond0'' ''AA:BB:CC:DD:EE:01''" "exampleBond ''bond1'' ''AA:BB:CC:DD:EE:02''"]
  have a: "fst (waitForNetworkRoutable exampleEnvironment twoBonds 1000000000 True startWorld) =
     Some ''timed out waiting for network to become routable''"
    using q1 hyp by blast
  have b: "fst (waitForNetworkRoutable exampleEnvironment twoBonds 1000000000 False startWorld) = None"
    using q1 hyp t by blast
  have c: "now (snd (waitForNetworkRoutable exampleEnvironment twoBonds 1000000000 False startWorld)) =
       500000000"
  proof -
    have el: "elapsed exampleEnvironment k = 0" for k
      by (simp add: exampleEnvironment_def)
    have "now (snd (waitForNetworkRoutable exampleEnvironment twoBonds 1000000000 False startWorld)) =
        checkTime exampleEnvironment (firstCheck exampleEnvironment startWorld)
          (Suc (LEAST j. cycleVerdict exampleEnvironment twoBonds False j))"
      using q1 ex by blast
    then show ?thesis by (simp add: least fc el)
  qed
  have d: "now (snd (waitForNetworkRoutable exampleEnvironment twoBonds 1000000000 True startWorld)) >
       1000000000"
    using q2 nv by (simp add: startWorld_def)
  from a b c d show ?thesis by blast
qed

section \<open>Cancellation\<close>

lemma cancelled_not_routable: "cancelled e k \<Longrightarrow> \<not> routable e k name"
  by (simp add: routable_def networkctl_def)

lemma foldr_or_all_False: "\<forall>x\<in>set xs. \<not> r x \<Longrightarrow> \<not> foldr (\<or>) (map r xs) False"
  by (induction xs) simp_all

lemma categoryVerdict_all_False:
  assumes "xs \<noteq> []" and "\<forall>x\<in>set xs. \<not> r x"
  shows "\<not> categoryVerdict ra (map r xs)"
proof (cases ra)
  case True
  obtain x rest where "xs = x # rest" using assms(1) by (cases xs) auto
  then show ?thesis using assms(2) True by (simp add: categoryVerdict_def)
next
  case False
  then show ?thesis using foldr_or_all_False [OF assms(2)] by (simp add: categoryVerdict_def)
qed

lemma cancelled_cycleVerdict:
  assumes "Interfaces cfg \<noteq> [] \<or> Bonds cfg \<noteq> [] \<or> VLANs cfg \<noteq> []" and "cancelled e k"
  shows "\<not> cycleVerdict e cfg ra k"
proof -
  have nr: "\<not> routable e k name" for name
    using assms(2) by (rule cancelled_not_routable)
  have i: "Interfaces cfg \<noteq> [] \<Longrightarrow>
      \<not> categoryVerdict ra (map (\<lambda>i. routable e k (if_Name i)) (Interfaces cfg))"
    by (rule categoryVerdict_all_False) (simp_all add: nr)
  have b: "Bonds cfg \<noteq> [] \<Longrightarrow>
      \<not> categoryVerdict ra (map (\<lambda>b. routable e k (bond_Name b)) (Bonds cfg))"
    by (rule categoryVerdict_all_False) (simp_all add: nr)
  have v: "VLANs cfg \<noteq> [] \<Longrightarrow>
      \<not> categoryVerdict ra (map (\<lambda>v. routable e k (vlan_Name v)) (VLANs cfg))"
    by (rule categoryVerdict_all_False) (simp_all add: nr)
  show ?thesis
    unfolding cycleVerdict_def using assms(1) i b v by blast
qed

lemma twoBonds_cancelled: "\<not> cycleVerdict cancelledEnvironment twoBonds ra k"
  by (rule cancelled_cycleVerdict) (simp_all add: twoBonds_def cancelledEnvironment_def)

text \<open>
  With the context cancelled from the first poll cycle on and a timeout of one second,
  the wait still sleeps and polls three times and returns at 1.5 seconds, after its own
  deadline: the loop does not look at the cancellation signal.
\<close>

theorem waitForNetworkRoutable_cancelled_counterexample:
  "waitForNetworkRoutable cancelledEnvironment twoBonds 1000000000 False startWorld =
     (Some ''timed out waiting for network to become routable'',
      \<lparr> now = 1500000000,
        effects = [Sleep 500000000,
                   RunCommand [''networkctl'', ''status'', ''bond0''],
                   RunCommand [''networkctl'', ''status'', ''bond1''],
                   Sleep 500000000,
                   RunCommand [''networkctl'', ''status'', ''bond0''],
                   RunCommand [''networkctl'', ''status'', ''bond1''],
                   Sleep 500000000,
                   RunCommand [''networkctl'', ''status'', ''bond0''],
                   RunCommand [''networkctl'', ''status'', ''bond1'']] \<rparr>)"
proof -
  have el: "elapsed cancelledEnvironment k = 0" for k
    by (simp add: cancelledEnvironment_def exampleEnvironment_def)
  have poll: "snd (pollCycle cancelledEnvironment twoBonds False k log) =
      log @ [RunCommand [''networkctl'', ''status'', ''bond0''],
             RunCommand [''networkctl'', ''status'', ''bond1'']]" for k log
    by (simp add: pollCycle_def pollCategory_eq twoBonds_def exampleBond_def categoryVerdict_def
        cancelled_not_routable cancelledEnvironment_def)
  have fc: "firstCheck cancelledEnvironment \<lparr>now = 0, effects = []\<rparr> = 0"
    by (simp add: firstCheck_def cancelledEnvironment_def exampleEnvironment_def)
  show ?thesis
    unfolding waitForNetworkRoutable_def startWorld_def
    by (simp add: waitLoop_continue waitLoop_timed_out twoBonds_cancelled el poll fc)
qed

text \<open>
  C6, as the code has it. The context is only handed to each routability query. Once
  it is cancelled every query fails and its device counts as not routable, so for a
  configuration with at least one device, if no poll cycle before the cancellation was
  good, the wait keeps polling and returns the timeout error only after its own deadline
  has passed.
\<close>

theorem waitForNetworkRoutable_cancelled:
  assumes "Interfaces cfg \<noteq> [] \<or> Bonds cfg \<noteq> [] \<or> VLANs cfg \<noteq> []"
    and "\<forall>k. c \<le> k \<longrightarrow> cancelled e k"
    and "\<forall>j. j < c \<longrightarrow> \<not> cycleVerdict e cfg requireAll j"
  shows "fst (waitForNetworkRoutable e cfg timeout requireAll w) =
           Some ''timed out waiting for network to become routable''
       \<and> now (snd (waitForNetworkRoutable e cfg timeout requireAll w)) > now w + timeout"
proof -
  have "\<not> cycleVerdict e cfg requireAll j" for j
  proof (cases "j < c")
    case True
    then show ?thesis using assms(3) by simp
  next
    case False
    then have "cancelled e j" using assms(2) by simp
    with assms(1) show ?thesis by (rule cancelled_cycleVerdict)
  qed
  then have "\<forall>j. 0 \<le> j \<and> checkTime e (firstCheck e w) j \<le> now w + timeout \<longrightarrow> \<not> cycleVerdict e cfg requireAll j"
    by simp
  then show ?thesis
    unfolding waitForNetworkRoutable_def by (rule waitLoop_timeout) simp
qed

theorem waitForNetworkRoutable_cancelled_witness:
  "fst (waitForNetworkRoutable cancelledEnvironment twoBonds 1000000000 True startWorld) =
     Some ''timed out waiting for network to become routable''
   \<and> now (snd (waitForNetworkRoutable cancelledEnvironment twoBonds 1000000000 True startWorld)) >
       1000000000"
proof -
  have d: "Interfaces twoBonds \<noteq> [] \<or> Bonds twoBonds \<noteq> [] \<or> VLANs twoBonds \<noteq> []"
    by (simp add: twoBonds_def)
  have c: "\<forall>k. 0 \<le> k \<longrightarrow> cancelled cancelledEnvironment k"
    by (simp add: cancelledEnvironment_def)
  have n: "\<forall>j. j < 0 \<longrightarrow> \<not> cycleVerdict cancelledEnvironment twoBonds True j"
    by simp
  from waitForNetworkRoutable_cancelled [OF d c n, of 1000000000 startWorld]
  show ?thesis by (simp add: startWorld_def)
qed

section \<open>VLAN device names\<close>

text \<open>
  C9. For every VLAN of a configuration, the netdev artifact generated for it declares
  the device name "vl" followed by the configured name, while a poll cycle of the waiter
  that reaches the VLAN category asks \<open>networkctl status\<close> for the configured name
  alone (and a poll cycle only ever asks for configured names); the two names differ.
\<close>

theorem vlan_waiter_name_mismatch:
  "\<forall>v\<in>set (VLANs cfg).
      vlanNetdev v \<in> set (generateNetdevFileContents cfg)
    \<and> (\<exists>rest. Contents (vlanNetdev v) =
          ''[NetDev]\<newline>Name='' @ (''vl'' @ vlan_Name v) @ ''\<newline>Kind=vlan\<newline>'' @ rest)
    \<and> ((Interfaces cfg = [] \<or> categoryVerdict requireAll (map (\<lambda>i. routable e k (if_Name i)) (Interfaces cfg)))
        \<and> (Bonds cfg = [] \<or> categoryVerdict requireAll (map (\<lambda>b. routable e k (bond_Name b)) (Bonds cfg)))
        \<longrightarrow> RunCommand [''networkctl'', ''status'', vlan_Name v]
              \<in> set (snd (pollCycle e cfg requireAll k log)))
    \<and> set (snd (pollCycle e cfg requireAll k log)) \<subseteq>
        set log
        \<union> (\<lambda>i. RunCommand [''networkctl'', ''status'', if_Name i]) ` set (Interfaces cfg)
        \<union> (\<lambda>b. RunCommand [''networkctl'', ''status'', bond_Name b]) ` set (Bonds cfg)
        \<union> (\<lambda>v. RunCommand [''networkctl'', ''status'', vlan_Name v]) ` set (VLANs cfg)
    \<and> vlan_Name v \<noteq> ''vl'' @ vlan_Name v"
proof
  fix v assume v: "v \<in> set (VLANs cfg)"
  have a: "vlanNetdev v \<in> set (generateNetdevFileContents cfg)"
    using v by (simp add: generateNetdevFileContents_def)
  have b: "\<exists>rest. Contents (vlanNetdev v) =
          ''[NetDev]\<newline>Name='' @ (''vl'' @ vlan_Name v) @ ''\<newline>Kind=vlan\<newline>'' @ rest"
    by (simp add: vlanNetdev_def)
  have c: "(Interfaces cfg = [] \<or> categoryVerdict requireAll (map (\<lambda>i. routable e k (if_Name i)) (Interfaces cfg)))
        \<and> (Bonds cfg = [] \<or> categoryVerdict requireAll (map (\<lambda>b. routable e k (bond_Name b)) (Bonds cfg)))
        \<longrightarrow> RunCommand [''networkctl'', ''status'', vlan_Name v]
              \<in> set (snd (pollCycle e cfg requireAll k log))"
    using v by (auto simp: pollCycle_snd)
  have d: "set (snd (pollCycle e cfg requireAll k log)) \<subseteq>
        set log
        \<union> (\<lambda>i. RunCommand [''networkctl'', ''status'', if_Name i]) ` set (Interfaces cfg)
        \<union> (\<lambda>b. RunCommand [''networkctl'', ''status'', bond_Name b]) ` set (Bonds cfg)
        \<union> (\<lambda>v. RunCommand [''networkctl'', ''status'', vlan_Name v]) ` set (VLANs cfg)"
    by (auto simp: pollCycle_snd)
  have e: "vlan_Name v \<noteq> ''vl'' @ vlan_Name v"
    by simp
  from a b c d e show "vlanNetdev v \<in> set (generateNetdevFileContents cfg)
    \<and> (\<exists>rest. Contents (vlanNetdev v) =
          ''[NetDev]\<newline>Name='' @ (''vl'' @ vlan_Name v) @ ''\<newline>Kind=vlan\<newline>'' @ rest)
    \<and> ((Interfaces cfg = [] \<or> categoryVerdict requireAll (map (\<lambda>i. routable e k (if_Name i)) (Interfaces cfg)))
        \<and> (Bonds cfg = [] \<or> categoryVerdict requireAll (map (\<lambda>b. routable e k (bond_Name b)) (Bonds cfg)))
        \<longrightarrow> RunCommand [''networkctl'', ''status'', vlan_Name v]
              \<in> set (snd (pollCycle e cfg requireAll k log)))
    \<and> set (snd (pollCycle e cfg requireAll k log)) \<subseteq>
        set log
        \<union> (\<lambda>i. RunCommand [''networkctl'', ''status'', if_Name i]) ` set (Interfaces cfg)
        \<union> (\<lambda>b. RunCommand [''networkctl'', ''status'', bond_Name b]) ` set (Bonds cfg)
        \<union> (\<lambda>v. RunCommand [''networkctl'', ''status'', vlan_Name v]) ` set (VLANs cfg)
    \<and> vlan_Name v \<noteq> ''vl'' @ vlan_Name v"
    by blast
qed

theorem vlan_waiter_name_mismatch_witness:
  "exampleVLAN \<in> set (VLANs vlanOnly)
   \<and> vlanNetdev exampleVLAN \<in> set (generateNetdevFileContents vlanOnly)
   \<and> Contents (vlanNetdev exampleVLAN) =
       ''[NetDev]\<newline>Name=vlmgmt\<newline>Kind=vlan\<newline>\<newline>\<newline>[VLAN]\<newline>Id=100\<newline>''
   \<and> snd (pollCycle exampleEnvironment vlanOnly False 0 []) =
       [RunCommand [''networkctl'', ''status'', ''mgmt'']]"
proof -
  have v: "exampleVLAN \<in> set (VLANs vlanOnly)"
    by (simp add: vlanOnly_def)
  have c: "Contents (vlanNetdev exampleVLAN) =
       ''[NetDev]\<newline>Name=vlmgmt\<newline>Kind=vlan\<newline>\<newline>\<newline>[VLAN]\<newline>Id=100\<newline>''"
    by (simp add: vlanNetdev_def exampleVLAN_def mtuString_def Itoa_def)
  have p: "snd (pollCycle exampleEnvironment vlanOnly False 0 []) =
       [RunCommand [''networkctl'', ''status'', ''mgmt'']]"
    by (simp add: pollCycle_snd vlanOnly_def exampleVLAN_def)
  from vlan_waiter_name_mismatch [of vlanOnly False exampleEnvironment 0 "[]"] v
  have "vlanNetdev exampleVLAN \<in> set (generateNetdevFileContents vlanOnly)" by blast
  with v c p show ?thesis by blast
qed

section \<open>The apply sequence\<close>

lemma runSteps_append:
  "runSteps e (xs @ ys) w =
     (case runSteps e xs w of
        (Some err, w') \<Rightarrow> (Some err, w')
      | (None, w') \<Rightarrow> runSteps e ys w')"
  by (induction e xs w rule: runSteps.induct) (auto split: prod.splits option.splits)

lemma writeFiles_runSteps:
  "writeFiles e files w =
     runSteps e (map (\<lambda>f. (WriteFile (filepath_Join e (SystemdNetworkConfigPath e) (Name f)) (Contents f) 420, True)) files) w"
  by (induction files arbitrary: w) (auto split: prod.splits option.splits)

lemma generateNetworkConfiguration_runSteps:
  "generateNetworkConfiguration e cfg w = runSteps e (generateSteps e cfg) w"
  by (auto simp: generateNetworkConfiguration_def generateSteps_def writeFiles_runSteps runSteps_append
      generateTimesyncContents_def Let_def perform_def
      split: prod.splits option.splits)

lemma ApplyNetworkConfiguration_runSteps:
  "ApplyNetworkConfiguration e (Some cfg) timeout w =
     (case runSteps e (applySteps e cfg) w of
        (Some err, w') \<Rightarrow> (Some err, w')
      | (None, w') \<Rightarrow> waitForNetworkRoutable e cfg timeout (NetworkSeedExists e) w')"
  by (auto simp: ApplyNetworkConfiguration_def applySteps_def generateNetworkConfiguration_runSteps
      runSteps_append split: prod.splits option.splits)

lemma runSteps_Cons:
  "\<forall>d. a \<noteq> Sleep d \<Longrightarrow>
   runSteps e ((a, must) # rest) w =
     (case perform e a w of
        (Some err, w') \<Rightarrow> (if must then (Some err, w') else runSteps e rest w')
      | (None, w') \<Rightarrow> runSteps e rest w')"
  by (cases a) simp_all

lemma runSteps_failure:
  "runSteps e steps w = (Some err, w') \<Longrightarrow>
   \<exists>pre a post. steps = pre @ (a, True) # post
     \<and> effects w' = effects w @ map fst pre @ [a]
     \<and> fault e (effects w @ map fst pre) a = Some err"
proof (induction steps arbitrary: w)
  case Nil
  then show ?case by simp
next
  case (Cons s rest)
  obtain a must where s: "s = (a, must)" by (cases s)
  let ?w1 = "if (\<exists>d. a = Sleep d) then sleep (SOME d. a = Sleep d) w else w\<lparr>effects := effects w @ [a]\<rparr>"
  have eff: "effects ?w1 = effects w @ [a]"
    by (auto simp: sleep_def)
  show ?case
  proof (cases "(\<forall>d. a \<noteq> Sleep d) \<and> must \<and> fault e (effects w) a \<noteq> None")
    case True
    then obtain err0 where f: "fault e (effects w) a = Some err0" by blast
    have "runSteps e (s # rest) w = (Some err0, w\<lparr>effects := effects w @ [a]\<rparr>)"
      using True f by (simp add: s runSteps_Cons perform_def)
    with Cons.prems have "err = err0" "w' = w\<lparr>effects := effects w @ [a]\<rparr>" by simp_all
    then have "s # rest = [] @ (a, True) # rest
       \<and> effects w' = effects w @ map fst [] @ [a]
       \<and> fault e (effects w @ map fst []) a = Some err"
      using True f by (simp add: s)
    then show ?thesis by blast
  next
    case False
    have "runSteps e (s # rest) w = runSteps e rest ?w1"
    proof (cases "\<exists>d. a = Sleep d")
      case True
      then obtain d where "a = Sleep d" by blast
      then show ?thesis by (simp add: s)
    next
      case notSleep: False
      then show ?thesis using False
        by (auto simp: s runSteps_Cons perform_def split: option.splits)
    qed
    with Cons.prems have "runSteps e rest ?w1 = (Some err, w')" by simp
    from Cons.IH [OF this] obtain pre b post where
      r: "rest = pre @ (b, True) # post"
      and e1: "effects w' = effects ?w1 @ map fst pre @ [b]"
      and e2: "fault e (effects ?w1 @ map fst pre) b = Some err" by blast
    have "s # rest = (s # pre) @ (b, True) # post
       \<and> effects w' = effects w @ map fst (s # pre) @ [b]
       \<and> fault e (effects w @ map fst (s # pre)) b = Some err"
      using r e1 e2 unfolding eff by (simp add: s)
    then show ?thesis by blast
  qed
qed

lemma runSteps_success:
  "runSteps e steps w = (None, w') \<Longrightarrow> effects w' = effects w @ map fst steps"
proof (induction steps arbitrary: w)
  case Nil
  then show ?case by simp
next
  case (Cons s rest)
  obtain a must where s: "s = (a, must)" by (cases s)
  show ?case
  proof (cases "\<exists>d. a = Sleep d")
    case True
    then obtain d where a: "a = Sleep d" by blast
    with Cons.prems have "runSteps e rest (sleep d w) = (None, w')" by (simp add: s)
    from Cons.IH [OF this] show ?thesis by (simp add: s a sleep_def)
  next
    case False
    with Cons.prems have "runSteps e rest (w\<lparr>effects := effects w @ [a]\<rparr>) = (None, w')"
      by (auto simp: s runSteps_Cons perform_def split: option.splits if_splits)
    from Cons.IH [OF this] show ?thesis by (simp add: s)
  qed
qed

text \<open>
  C3. Applying a configuration performs the steps of \<open>applySteps\<close> in order and stops at
  the first one that fails, returning its error; when none fails it hands over to the
  convergence wait. The steps are, in this order: set the hostname, set or clear the
  proxy environment, remove and recreate the configuration directory, write every link,
  netdev and network artifact and the time-sync artifact (or remove a stale one, the
  one call whose error is discarded), sleep two seconds, trigger udev, wait for udev to
  settle, restart systemd-networkd, restart systemd-timesyncd. On failure the calls made
  are exactly the steps up to and including the failing one, each made once: nothing is
  retried and nothing is undone.
\<close>

theorem ApplyNetworkConfiguration_steps:
  "ApplyNetworkConfiguration e (Some cfg) timeout w =
     (case runSteps e (applySteps e cfg) w of
        (Some err, w') \<Rightarrow> (Some err, w')
      | (None, w') \<Rightarrow> waitForNetworkRoutable e cfg timeout (NetworkSeedExists e) w')
   \<and> (case runSteps e (applySteps e cfg) w of
        (Some err, w') \<Rightarrow>
          (\<exists>pre a post. applySteps e cfg = pre @ (a, True) # post
             \<and> effects w' = effects w @ map fst pre @ [a]
             \<and> fault e (effects w @ map fst pre) a = Some err)
      | (None, w') \<Rightarrow> effects w' = effects w @ map fst (applySteps e cfg))
   \<and> map fst (applySteps e cfg) =
       [SetHostname (targetHostname cfg),
        UpdateEnvironment (Proxy cfg),
        RemoveAll (SystemdNetworkConfigPath e),
        Mkdir (SystemdNetworkConfigPath e) 493] @
       map (\<lambda>f. WriteFile (filepath_Join e (SystemdNetworkConfigPath e) (Name f)) (Contents f) 420)
         (generateLinkFileContents cfg @ generateNetdevFileContents cfg @
          generateNetworkFileContents cfg) @
       [case NTP cfg of
          None \<Rightarrow> Remove (SystemdTimesyncConfigFile e)
        | Some ntp \<Rightarrow>
            if Timeservers ntp = [] then Remove (SystemdTimesyncConfigFile e)
            else WriteFile (SystemdTimesyncConfigFile e) (generateTimesyncContents ntp) 420] @
       [Sleep 2000000000,
        RunCommand [''udevadm'', ''trigger'', ''--action=add''],
        RunCommand [''udevadm'', ''settle''],
        RestartUnit ''systemd-networkd'',
        RestartUnit ''systemd-timesyncd'']"
proof -
  have a: "ApplyNetworkConfiguration e (Some cfg) timeout w =
     (case runSteps e (applySteps e cfg) w of
        (Some err, w') \<Rightarrow> (Some err, w')
      | (None, w') \<Rightarrow> waitForNetworkRoutable e cfg timeout (NetworkSeedExists e) w')"
    by (rule ApplyNetworkConfiguration_runSteps)
  have b: "(case runSteps e (applySteps e cfg) w of
        (Some err, w') \<Rightarrow>
          (\<exists>pre a post. applySteps e cfg = pre @ (a, True) # post
             \<and> effects w' = effects w @ map fst pre @ [a]
             \<and> fault e (effects w @ map fst pre) a = Some err)
      | (None, w') \<Rightarrow> effects w' = effects w @ map fst (applySteps e cfg))"
  proof (cases "runSteps e (applySteps e cfg) w")
    case (Pair r w')
    show ?thesis
    proof (cases r)
      case None
      with Pair runSteps_success [of e "applySteps e cfg" w w'] show ?thesis by simp
    next
      case (Some err)
      with Pair runSteps_failure [of e "applySteps e cfg" w err w'] show ?thesis by simp
    qed
  qed
  have c: "map fst (applySteps e cfg) =
       [SetHostname (targetHostname cfg),
        UpdateEnvironment (Proxy cfg),
        RemoveAll (SystemdNetworkConfigPath e),
        Mkdir (SystemdNetworkConfigPath e) 493] @
       map (\<lambda>f. WriteFile (filepath_Join e (SystemdNetworkConfigPath e) (Name f)) (Contents f) 420)
         (generateLinkFileContents cfg @ generateNetdevFileContents cfg @
          generateNetworkFileContents cfg) @
       [case NTP cfg of
          None \<Rightarrow> Remove (SystemdTimesyncConfigFile e)
        | Some ntp \<Rightarrow>
            if Timeservers ntp = [] then Remove (SystemdTimesyncConfigFile e)
            else WriteFile (SystemdTimesyncConfigFile e) (generateTimesyncContents ntp) 420] @
       [Sleep 2000000000,
        RunCommand [''udevadm'', ''trigger'', ''--action=add''],
        RunCommand [''udevadm'', ''settle''],
        RestartUnit ''systemd-networkd'',
        RestartUnit ''systemd-timesyncd'']"
    by (simp add: applySteps_def generateSteps_def generateTimesyncContents_def o_def
        split: option.splits)
  from a b c show ?thesis by (intro conjI)
qed

theorem ApplyNetworkConfiguration_steps_witness:
  "ApplyNetworkConfiguration mkdirFails (Some twoBonds) 10000000000 startWorld =
     (Some ''mkdir: read-only file system'',
      \<lparr> now = 0,
        effects = [SetHostname '''', UpdateEnvironment None,
                   RemoveAll ''/run/systemd/network'', Mkdir ''/run/systemd/network'' 493] \<rparr>)"
proof -
  have p: "SystemdNetworkConfigPath mkdirFails = ''/run/systemd/network''"
    by (simp add: mkdirFails_def exampleEnvironment_def)
  have f: "fault mkdirFails h a =
      (if a = Mkdir ''/run/systemd/network'' 493 then Some ''mkdir: read-only file system'' else None)" for h a
    by (simp add: mkdirFails_def)
  have h: "targetHostname twoBonds = ''''" "Proxy twoBonds = None"
    by (simp_all add: targetHostname_def twoBonds_def)
  have "runSteps mkdirFails (applySteps mkdirFails twoBonds) startWorld =
     (Some ''mkdir: read-only file system'',
      \<lparr> now = 0,
        effects = [SetHostname '''', UpdateEnvironment None,
                   RemoveAll ''/run/systemd/network'', Mkdir ''/run/systemd/network'' 493] \<rparr>)"
    by (simp add: applySteps_def generateSteps_def perform_def p f h startWorld_def)
  with ApplyNetworkConfiguration_steps [of mkdirFails twoBonds 10000000000 startWorld]
  show ?thesis by simp
qed

text \<open>
  C10. Called with a nil configuration, the apply returns the error "no network
  configuration provided" and leaves the world as it was: no capability is called.
\<close>

theorem ApplyNetworkConfiguration_nil:
  "ApplyNetworkConfiguration e None timeout w = (Some ''no network configuration provided'', w)"
  by (simp add: ApplyNetworkConfiguration_def)

section \<open>The handler\<close>

lemma mkdirFails_apply:
  "ApplyNetworkConfiguration mkdirFails (Some twoBonds) 10000000000 startWorld =
     (Some ''mkdir: read-only file system'',
      \<lparr> now = 0,
        effects = [SetHostname '''', UpdateEnvironment None,
                   RemoveAll ''/run/systemd/network'', Mkdir ''/run/systemd/network'' 493] \<rparr>)"
proof -
  have p: "SystemdNetworkConfigPath mkdirFails = ''/run/systemd/network''"
    by (simp add: mkdirFails_def exampleEnvironment_def)
  have f: "fault mkdirFails h a =
      (if a = Mkdir ''/run/systemd/network'' 493 then Some ''mkdir: read-only file system'' else None)" for h a
    by (simp add: mkdirFails_def)
  have h: "targetHostname twoBonds = ''''" "Proxy twoBonds = None"
    by (simp_all add: targetHostname_def twoBonds_def)
  show ?thesis
    by (simp add: ApplyNetworkConfiguration_def generateNetworkConfiguration_def perform_def
        p f h startWorld_def)
qed

text \<open>
  C4. For a PUT or PATCH request whose decoded configuration has no interfaces, bonds
  or VLANs, the handler answers with a client error and leaves the active configuration
  and the world unchanged. For a decoded configuration with a device, the active
  configuration is set to the new one and the apply is called on it; when the apply
  fails the handler answers with a client error carrying the apply's error, and the
  active configuration is the attempted one.
\<close>

theorem apiNetwork10_swaps_before_apply:
  assumes "Method r = MethodPut \<or> Method r = MethodPatch"
    and "decodeRequest r s = Inr newConfig"
  shows "(Interfaces newConfig = [] \<and> Bonds newConfig = [] \<and> VLANs newConfig = [] \<longrightarrow>
            apiNetwork10 e r (s, w) =
              (BadRequest ''network configuration has no devices defined'', s, w))
       \<and> (\<not> (Interfaces newConfig = [] \<and> Bonds newConfig = [] \<and> VLANs newConfig = []) \<longrightarrow>
            (\<forall>err w'. ApplyNetworkConfiguration e (Some newConfig) 10000000000 w = (Some err, w') \<longrightarrow>
               apiNetwork10 e r (s, w) = (BadRequest err, s\<lparr>NetworkConfig := Some newConfig\<rparr>, w'))
          \<and> (\<forall>w'. ApplyNetworkConfiguration e (Some newConfig) 10000000000 w = (None, w') \<longrightarrow>
               apiNetwork10 e r (s, w) = (EmptySyncResponse, s\<lparr>NetworkConfig := Some newConfig\<rparr>, w')))"
  using assms
  by (auto simp: apiNetwork10_def NetworkConfigHasEmptyDevices_def Let_def)

theorem apiNetwork10_swaps_before_apply_witness:
  "apiNetwork10 exampleEnvironment putNoDevices (servingVlanOnly, startWorld) =
     (BadRequest ''network configuration has no devices defined'', servingVlanOnly, startWorld)
   \<and> apiNetwork10 mkdirFails putTwoBonds (servingVlanOnly, startWorld) =
     (BadRequest ''mkdir: read-only file system'',
      \<lparr> NetworkConfig = Some twoBonds \<rparr>,
      \<lparr> now = 0,
        effects = [SetHostname '''', UpdateEnvironment None,
                   RemoveAll ''/run/systemd/network'', Mkdir ''/run/systemd/network'' 493] \<rparr>)"
proof -
  have m1: "Method putNoDevices = MethodPut \<or> Method putNoDevices = MethodPatch"
    by (simp add: putNoDevices_def)
  have d1: "decodeRequest putNoDevices servingVlanOnly = Inr new_NetworkConfig"
    by (simp add: decodeRequest_def putNoDevices_def)
  have e1: "Interfaces new_NetworkConfig = [] \<and> Bonds new_NetworkConfig = [] \<and> VLANs new_NetworkConfig = []"
    by (simp add: new_NetworkConfig_def)
  have a: "apiNetwork10 exampleEnvironment putNoDevices (servingVlanOnly, startWorld) =
     (BadRequest ''network configuration has no devices defined'', servingVlanOnly, startWorld)"
    using apiNetwork10_swaps_before_apply [OF m1 d1, of exampleEnvironment startWorld] e1 by blast
  have m2: "Method putTwoBonds = MethodPut \<or> Method putTwoBonds = MethodPatch"
    by (simp add: putTwoBonds_def)
  have d2: "decodeRequest putTwoBonds servingVlanOnly = Inr twoBonds"
    by (simp add: decodeRequest_def putTwoBonds_def)
  have e2: "\<not> (Interfaces twoBonds = [] \<and> Bonds twoBonds = [] \<and> VLANs twoBonds = [])"
    by (simp add: twoBonds_def)
  have b: "apiNetwork10 mkdirFails putTwoBonds (servingVlanOnly, startWorld) =
     (BadRequest ''mkdir: read-only file system'',
      servingVlanOnly\<lparr>NetworkConfig := Some twoBonds\<rparr>,
      \<lparr> now = 0,
        effects = [SetHostname '''', UpdateEnvironment None,
                   RemoveAll ''/run/systemd/network'', Mkdir ''/run/systemd/network'' 493] \<rparr>)"
    using apiNetwork10_swaps_before_apply [OF m2 d2, of mkdirFails startWorld] e2 mkdirFails_apply
    by blast
  from a b show ?thesis by (simp add: servingVlanOnly_def)
qed

section \<open>Network artifacts\<close>

lemma HasPrefix_append: "HasPrefix (sub @ post) sub"
  by (induction sub) simp_all

lemma Contains_append: "Contains (pre @ sub @ post) sub"
proof (induction pre)
  case Nil
  show ?case
  proof (cases "sub @ post")
    case Nil
    then show ?thesis by simp
  next
    case (Cons c cs)
    have "HasPrefix (c # cs) sub" using HasPrefix_append [of sub post] Cons by simp
    then show ?thesis using Cons by simp
  qed
next
  case (Cons a pre)
  then show ?case by simp
qed

lemma toLowerByte_newline: "toLowerByte c = newline \<Longrightarrow> c = newline"
  by (auto simp: toLowerByte_def newline_def split: option.splits if_splits)

lemma strippedHwaddr_newline:
  assumes "newline \<notin> set hwaddr"
  shows "newline \<notin> set (strippedHwaddr hwaddr)"
proof
  assume "newline \<in> set (strippedHwaddr hwaddr)"
  then obtain c where c: "c \<in> set (ReplaceAll hwaddr CHR '':'' [])" "toLowerByte c = newline"
    by (auto simp: strippedHwaddr_def ToLower_def)
  from c(1) have "c \<in> set hwaddr"
    by (auto simp: ReplaceAll_def split: if_splits)
  moreover from c(2) have "c = newline" by (rule toLowerByte_newline)
  ultimately show False using assms by simp
qed

lemma FormatBool_newline: "newline \<notin> set (FormatBool b)"
  by (simp add: FormatBool_def newline_def)

lemma text_lines_of_lines:
  "\<forall>l\<in>set ls. newline \<notin> set l \<Longrightarrow> text_lines (concat (map (\<lambda>l. l @ [newline]) ls)) = ls @ [[]]"
  using text_lines_unlines [of ls "[]"] by simp

lemma interfaceNetwork_dhcp: "Contains (Contents (interfaceNetwork dns ntp i)) dhcpBlock"
proof -
  have "Contents (interfaceNetwork dns ntp i) =
      (''[Match]\<newline>Name='' @ if_Name i @ ''\<newline>\<newline>'') @ dhcpBlock @
      (generateNetworkSectionContents dns ntp @ processAddresses (if_Addresses i) @
       (if length (if_Routes i) > 0 then processRoutes (if_Routes i) else '''') @
       bridgeVLAN (if_VLAN i))"
    by (simp add: interfaceNetwork_def dhcpBlock_def)
  then show ?thesis by (simp only: Contains_append)
qed

lemma bondNetwork_dhcp: "Contains (Contents (bondNetwork dns ntp b)) dhcpBlock"
proof -
  have "Contents (bondNetwork dns ntp b) =
      (''[Match]\<newline>Name='' @ bond_Name b @ ''\<newline>\<newline>'') @ dhcpBlock @
      (generateNetworkSectionContents dns ntp @ processAddresses (bond_Addresses b) @
       (if length (bond_Routes b) > 0 then processRoutes (bond_Routes b) else '''') @
       bridgeVLAN (bond_VLAN b))"
    by (simp add: bondNetwork_def dhcpBlock_def)
  then show ?thesis by (simp only: Contains_append)
qed

lemma vlanNetwork_dhcp: "Contains (Contents (vlanNetwork dns ntp v)) dhcpBlock"
proof -
  have "Contents (vlanNetwork dns ntp v) =
      (''[Match]\<newline>Name='' @ vlan_Parent v @ ''\<newline>\<newline>'') @ dhcpBlock @
      (''VLAN=vl'' @ vlan_Name v @ ''\<newline>'' @
       generateNetworkSectionContents dns ntp @ processAddresses (vlan_Addresses v) @
       (if length (vlan_Routes v) > 0 then processRoutes (vlan_Routes v) else ''''))"
    by (simp add: vlanNetwork_def dhcpBlock_def)
  then show ?thesis by (simp only: Contains_append)
qed

lemma interfaceBridgeNetwork_lines:
  assumes "newline \<notin> set (if_Name i)" and "newline \<notin> set (if_Hwaddr i)"
  shows "text_lines (Contents (interfaceBridgeNetwork i)) =
     [''[Match]'', ''Name=en'' @ strippedHwaddr (if_Hwaddr i), '''', ''[Network]'',
      ''Bridge='' @ if_Name i, ''LLDP='' @ FormatBool (if_LLDP i),
      ''EmitLLDP='' @ FormatBool (if_LLDP i), '''']"
proof -
  let ?ls = "[''[Match]'', ''Name=en'' @ strippedHwaddr (if_Hwaddr i), '''', ''[Network]'',
      ''Bridge='' @ if_Name i, ''LLDP='' @ FormatBool (if_LLDP i),
      ''EmitLLDP='' @ FormatBool (if_LLDP i)]"
  have c: "Contents (interfaceBridgeNetwork i) = concat (map (\<lambda>l. l @ [newline]) ?ls)"
    by (simp add: interfaceBridgeNetwork_def newline_def)
  have "\<forall>l\<in>set ?ls. newline \<notin> set l"
    using assms strippedHwaddr_newline [OF assms(2)] FormatBool_newline [of "if_LLDP i"]
    by (simp add: newline_def)
  from text_lines_of_lines [OF this] show ?thesis unfolding c by simp
qed

lemma bondBridgeNetwork_lines:
  assumes "newline \<notin> set (bond_Name b)" and "newline \<notin> set (bond_Hwaddr b)"
  shows "text_lines (Contents (bondBridgeNetwork b)) =
     [''[Match]'', ''Name=bn'' @ strippedHwaddr (bond_Hwaddr b), '''', ''[Network]'',
      ''Bridge='' @ bond_Name b, '''']"
proof -
  let ?ls = "[''[Match]'', ''Name=bn'' @ strippedHwaddr (bond_Hwaddr b), '''', ''[Network]'',
      ''Bridge='' @ bond_Name b]"
  have c: "Contents (bondBridgeNetwork b) = concat (map (\<lambda>l. l @ [newline]) ?ls)"
    by (simp add: bondBridgeNetwork_def newline_def)
  have "\<forall>l\<in>set ?ls. newline \<notin> set l"
    using assms strippedHwaddr_newline [OF assms(2)]
    by (simp add: newline_def)
  from text_lines_of_lines [OF this] show ?thesis unfolding c by simp
qed

lemma bondMemberNetwork_lines:
  assumes "newline \<notin> set member" and "newline \<notin> set (bond_Hwaddr b)"
  shows "text_lines (Contents (bondMemberNetwork b index member)) =
     [''[Match]'', ''Name=en'' @ strippedHwaddr member, '''', ''[Network]'',
      ''Bond=bn'' @ strippedHwaddr (bond_Hwaddr b), ''LLDP='' @ FormatBool (bond_LLDP b),
      ''EmitLLDP='' @ FormatBool (bond_LLDP b), '''']"
proof -
  let ?ls = "[''[Match]'', ''Name=en'' @ strippedHwaddr member, '''', ''[Network]'',
      ''Bond=bn'' @ strippedHwaddr (bond_Hwaddr b), ''LLDP='' @ FormatBool (bond_LLDP b),
      ''EmitLLDP='' @ FormatBool (bond_LLDP b)]"
  have c: "Contents (bondMemberNetwork b index member) = concat (map (\<lambda>l. l @ [newline]) ?ls)"
    by (simp add: bondMemberNetwork_def newline_def)
  have "\<forall>l\<in>set ?ls. newline \<notin> set l"
    using strippedHwaddr_newline [OF assms(1)] strippedHwaddr_newline [OF assms(2)]
      FormatBool_newline [of "bond_LLDP b"]
    by (simp add: newline_def)
  from text_lines_of_lines [OF this] show ?thesis unfolding c by simp
qed

lemma generateNetworkFileContents_kinds:
  "f \<in> set (generateNetworkFileContents cfg) \<Longrightarrow>
      (\<exists>i\<in>set (Interfaces cfg). f = interfaceNetwork (DNS cfg) (NTP cfg) i \<or> f = interfaceBridgeNetwork i)
    \<or> (\<exists>b\<in>set (Bonds cfg). f = bondNetwork (DNS cfg) (NTP cfg) b \<or> f = bondBridgeNetwork b
          \<or> (\<exists>index<length (bond_Members b). f = bondMemberNetwork b index (bond_Members b ! index)))
    \<or> (\<exists>v\<in>set (VLANs cfg). f = vlanNetwork (DNS cfg) (NTP cfg) v)"
  by (auto simp: generateNetworkFileContents_def in_set_enumerate_eq) blast+

lemma ethMain_stripped: "strippedHwaddr ''aa:bb:cc:dd:ee:ff'' = ''aabbccddeeff''"
  by (simp add: strippedHwaddr_def ToLower_def ReplaceAll_def toLowerByte_def)

lemma oneInterface_network:
  "generateNetworkFileContents oneInterface =
     [\<lparr> Name = ''20-eth-main.network'',
        Contents = ''[Match]\<newline>Name=eth-main\<newline>\<newline>[DHCP]\<newline>ClientIdentifier=mac\<newline>RouteMetric=100\<newline>UseMTU=true\<newline>\<newline>[Network]\<newline>LinkLocalAddressing=ipv6\<newline>Address=192.0.2.5/24\<newline>IPv6AcceptRA=false\<newline>'' \<rparr>,
      \<lparr> Name = ''20-braabbccddeeff.network'',
        Contents = ''[Match]\<newline>Name=enaabbccddeeff\<newline>\<newline>[Network]\<newline>Bridge=eth-main\<newline>LLDP=false\<newline>EmitLLDP=false\<newline>'' \<rparr>]"
  by (simp add: generateNetworkFileContents_def oneInterface_def ethMain_def interfaceNetwork_def
      interfaceBridgeNetwork_def generateNetworkSectionContents_def processAddresses_def
      bridgeVLAN_def FormatBool_def ethMain_stripped)

text \<open>
  The bridge-binding artifact generated for the interface \<open>eth-main\<close> has a [Match] and
  a [Network] block and no [DHCP] block.
\<close>

theorem network_artifacts_dhcp_block_counterexample:
  "interfaceBridgeNetwork ethMain \<in> set (generateNetworkFileContents oneInterface)
   \<and> Contents (interfaceBridgeNetwork ethMain) =
       ''[Match]\<newline>Name=enaabbccddeeff\<newline>\<newline>[Network]\<newline>Bridge=eth-main\<newline>LLDP=false\<newline>EmitLLDP=false\<newline>''
   \<and> \<not> Contains (Contents (interfaceBridgeNetwork ethMain)) ''[DHCP]''"
proof -
  have c: "Contents (interfaceBridgeNetwork ethMain) =
       ''[Match]\<newline>Name=enaabbccddeeff\<newline>\<newline>[Network]\<newline>Bridge=eth-main\<newline>LLDP=false\<newline>EmitLLDP=false\<newline>''"
    by (simp add: interfaceBridgeNetwork_def ethMain_def FormatBool_def ethMain_stripped)
  have m: "interfaceBridgeNetwork ethMain \<in> set (generateNetworkFileContents oneInterface)"
    by (simp add: generateNetworkFileContents_def oneInterface_def)
  have n: "\<not> Contains (Contents (interfaceBridgeNetwork ethMain)) ''[DHCP]''"
    unfolding c by simp
  from m c n show ?thesis by (intro conjI)
qed

text \<open>
  C5, as the code has it. Every generated network artifact is of one of six kinds. The
  three addressing kinds (per interface, per bond, per VLAN) contain the [DHCP] block
  with ClientIdentifier=mac, RouteMetric=100 and UseMTU=true, directly followed by the
  header of the [Network] block. The three binding kinds (interface to bridge, bond to
  bridge, member to bond) consist, for names and hardware addresses without a line
  break, of a [Match] block and a [Network] block only.
\<close>

theorem network_artifacts_dhcp_block:
  "(\<forall>f\<in>set (generateNetworkFileContents cfg).
       (\<exists>i\<in>set (Interfaces cfg). f = interfaceNetwork (DNS cfg) (NTP cfg) i \<or> f = interfaceBridgeNetwork i)
     \<or> (\<exists>b\<in>set (Bonds cfg). f = bondNetwork (DNS cfg) (NTP cfg) b \<or> f = bondBridgeNetwork b
          \<or> (\<exists>index<length (bond_Members b). f = bondMemberNetwork b index (bond_Members b ! index)))
     \<or> (\<exists>v\<in>set (VLANs cfg). f = vlanNetwork (DNS cfg) (NTP cfg) v))
   \<and> Contains (Contents (interfaceNetwork dns ntp i)) dhcpBlock
   \<and> Contains (Contents (bondNetwork dns ntp b)) dhcpBlock
   \<and> Contains (Contents (vlanNetwork dns ntp v)) dhcpBlock
   \<and> (newline \<notin> set (if_Name i) \<and> newline \<notin> set (if_Hwaddr i) \<longrightarrow>
        text_lines (Contents (interfaceBridgeNetwork i)) =
          [''[Match]'', ''Name=en'' @ strippedHwaddr (if_Hwaddr i), '''', ''[Network]'',
           ''Bridge='' @ if_Name i, ''LLDP='' @ FormatBool (if_LLDP i),
           ''EmitLLDP='' @ FormatBool (if_LLDP i), ''''])
   \<and> (newline \<notin> set (bond_Name b) \<and> newline \<notin> set (bond_Hwaddr b) \<longrightarrow>
        text_lines (Contents (bondBridgeNetwork b)) =
          [''[Match]'', ''Name=bn'' @ strippedHwaddr (bond_Hwaddr b), '''', ''[Network]'',
           ''Bridge='' @ bond_Name b, ''''])
   \<and> (newline \<notin> set member \<and> newline \<notin> set (bond_Hwaddr b) \<longrightarrow>
        text_lines (Contents (bondMemberNetwork b index member)) =
          [''[Match]'', ''Name=en'' @ strippedHwaddr member, '''', ''[Network]'',
           ''Bond=bn'' @ strippedHwaddr (bond_Hwaddr b), ''LLDP='' @ FormatBool (bond_LLDP b),
           ''EmitLLDP='' @ FormatBool (bond_LLDP b), ''''])"
  using generateNetworkFileContents_kinds [of _ cfg]
    interfaceNetwork_dhcp [of dns ntp i] bondNetwork_dhcp [of dns ntp b] vlanNetwork_dhcp [of dns ntp v]
    interfaceBridgeNetwork_lines [of i] bondBridgeNetwork_lines [of b]
    bondMemberNetwork_lines [of member b index]
  by (intro conjI ballI impI) blast+

theorem network_artifacts_dhcp_block_witness:
  "Contains (Contents (interfaceNetwork None None ethMain)) dhcpBlock
   \<and> interfaceNetwork None None ethMain \<in> set (generateNetworkFileContents oneInterface)
   \<and> text_lines (Contents (interfaceBridgeNetwork ethMain)) =
       [''[Match]'', ''Name=enaabbccddeeff'', '''', ''[Network]'',
        ''Bridge=eth-main'', ''LLDP=false'', ''EmitLLDP=false'', '''']
   \<and> text_lines (Contents (bondBridgeNetwork (exampleBond ''bond0'' ''AA:BB:CC:DD:EE:01''))) =
       [''[Match]'', ''Name=bnaabbccddee01'', '''', ''[Network]'', ''Bridge=bond0'', '''']"
proof -
  note t = network_artifacts_dhcp_block [of oneInterface None None ethMain
      "exampleBond ''bond0'' ''AA:BB:CC:DD:EE:01''" exampleVLAN "''AA:BB:CC:DD:EE:01''" 0]
  have h1: "newline \<notin> set (if_Name ethMain) \<and> newline \<notin> set (if_Hwaddr ethMain)"
    by (simp add: ethMain_def newline_def)
  have h2: "newline \<notin> set (bond_Name (exampleBond ''bond0'' ''AA:BB:CC:DD:EE:01''))
      \<and> newline \<notin> set (bond_Hwaddr (exampleBond ''bond0'' ''AA:BB:CC:DD:EE:01''))"
    by (simp add: exampleBond_def newline_def)
  have s2: "strippedHwaddr ''AA:BB:CC:DD:EE:01'' = ''aabbccddee01''"
    by (simp add: strippedHwaddr_def ToLower_def ReplaceAll_def toLowerByte_def)
  have a: "Contains (Contents (interfaceNetwork None None ethMain)) dhcpBlock"
    using t by blast
  have b: "interfaceNetwork None None ethMain \<in> set (generateNetworkFileContents oneInterface)"
    by (simp add: generateNetworkFileContents_def oneInterface_def)
  have "text_lines (Contents (interfaceBridgeNetwork ethMain)) =
          [''[Match]'', ''Name=en'' @ strippedHwaddr (if_Hwaddr ethMain), '''', ''[Network]'',
           ''Bridge='' @ if_Name ethMain, ''LLDP='' @ FormatBool (if_LLDP ethMain),
           ''EmitLLDP='' @ FormatBool (if_LLDP ethMain), '''']"
    using t h1 by blast
  then have c: "text_lines (Contents (interfaceBridgeNetwork ethMain)) =
       [''[Match]'', ''Name=enaabbccddeeff'', '''', ''[Network]'',
        ''Bridge=eth-main'', ''LLDP=false'', ''EmitLLDP=false'', '''']"
    by (simp add: ethMain_def ethMain_stripped FormatBool_def)
  have "text_lines (Contents (bondBridgeNetwork (exampleBond ''bond0'' ''AA:BB:CC:DD:EE:01''))) =
          [''[Match]'', ''Name=bn'' @ strippedHwaddr (bond_Hwaddr (exampleBond ''bond0'' ''AA:BB:CC:DD:EE:01'')),
           '''', ''[Network]'', ''Bridge='' @ bond_Name (exampleBond ''bond0'' ''AA:BB:CC:DD:EE:01''), '''']"
    using t h2 by blast
  then have d: "text_lines (Contents (bondBridgeNetwork (exampleBond ''bond0'' ''AA:BB:CC:DD:EE:01''))) =
       [''[Match]'', ''Name=bnaabbccddee01'', '''', ''[Network]'', ''Bridge=bond0'', '''']"
    by (simp add: exampleBond_def s2)
  from a b c d show ?thesis by (intro conjI)
qed

section \<open>One interface, end to end\<close>

text \<open>
  The link artifact of the interface with hardware address aa:bb:cc:dd:ee:ff renames the
  device to enaabbccddeeff; the text eneabbccddeeff occurs neither in its file name nor
  in its contents.
\<close>

theorem one_interface_end_to_end_counterexample:
  "generateLinkFileContents oneInterface =
     [\<lparr> Name = ''00-enaabbccddeeff.link'',
        Contents = ''[Match]\<newline>PermanentMACAddress=aa:bb:cc:dd:ee:ff\<newline>\<newline>[Link]\<newline>NamePolicy=\<newline>Name=enaabbccddeeff\<newline>'' \<rparr>]
   \<and> \<not> Contains (Name (generateLinkFileContents oneInterface ! 0)) ''eneabbccddeeff''
   \<and> \<not> Contains (Contents (generateLinkFileContents oneInterface ! 0)) ''eneabbccddeeff''"
proof -
  have l: "generateLinkFileContents oneInterface =
     [\<lparr> Name = ''00-enaabbccddeeff.link'',
        Contents = ''[Match]\<newline>PermanentMACAddress=aa:bb:cc:dd:ee:ff\<newline>\<newline>[Link]\<newline>NamePolicy=\<newline>Name=enaabbccddeeff\<newline>'' \<rparr>]"
    by (simp add: generateLinkFileContents_def oneInterface_def ethMain_def ethMain_stripped)
  show ?thesis unfolding l by simp
qed

text \<open>
  C7, as the code has it. The configuration with the single interface eth-main, hardware
  address aa:bb:cc:dd:ee:ff and the one address 192.0.2.5/24 (every other field at its
  zero value) produces a link artifact that matches PermanentMACAddress=aa:bb:cc:dd:ee:ff
  and renames the device to enaabbccddeeff, a bridge netdev named eth-main, and a network
  artifact with the line Address=192.0.2.5/24 and no line that starts with DHCP=.
\<close>

theorem one_interface_end_to_end:
  "generateLinkFileContents oneInterface =
     [\<lparr> Name = ''00-enaabbccddeeff.link'',
        Contents = ''[Match]\<newline>PermanentMACAddress=aa:bb:cc:dd:ee:ff\<newline>\<newline>[Link]\<newline>NamePolicy=\<newline>Name=enaabbccddeeff\<newline>'' \<rparr>]
   \<and> generateNetdevFileContents oneInterface =
     [\<lparr> Name = ''10-braabbccddeeff.netdev'',
        Contents = ''[NetDev]\<newline>Name=eth-main\<newline>Kind=bridge\<newline>MACAddress=aa:bb:cc:dd:ee:ff\<newline>\<newline>\<newline>[Bridge]\<newline>VLANFiltering=true\<newline>'' \<rparr>]
   \<and> generateNetworkFileContents oneInterface =
     [\<lparr> Name = ''20-eth-main.network'',
        Contents = ''[Match]\<newline>Name=eth-main\<newline>\<newline>[DHCP]\<newline>ClientIdentifier=mac\<newline>RouteMetric=100\<newline>UseMTU=true\<newline>\<newline>[Network]\<newline>LinkLocalAddressing=ipv6\<newline>Address=192.0.2.5/24\<newline>IPv6AcceptRA=false\<newline>'' \<rparr>,
      \<lparr> Name = ''20-braabbccddeeff.network'',
        Contents = ''[Match]\<newline>Name=enaabbccddeeff\<newline>\<newline>[Network]\<newline>Bridge=eth-main\<newline>LLDP=false\<newline>EmitLLDP=false\<newline>'' \<rparr>]
   \<and> text_lines (Contents (generateNetworkFileContents oneInterface ! 0)) =
       [''[Match]'', ''Name=eth-main'', '''', ''[DHCP]'', ''ClientIdentifier=mac'', ''RouteMetric=100'',
        ''UseMTU=true'', '''', ''[Network]'', ''LinkLocalAddressing=ipv6'', ''Address=192.0.2.5/24'',
        ''IPv6AcceptRA=false'', '''']
   \<and> ''Address=192.0.2.5/24'' \<in> set (text_lines (Contents (generateNetworkFileContents oneInterface ! 0)))
   \<and> filter (\<lambda>l. HasPrefix l ''DHCP='')
        (text_lines (Contents (generateNetworkFileContents oneInterface ! 0))) = []"
proof -
  let ?ls = "[''[Match]'', ''Name=eth-main'', '''', ''[DHCP]'', ''ClientIdentifier=mac'', ''RouteMetric=100'',
        ''UseMTU=true'', '''', ''[Network]'', ''LinkLocalAddressing=ipv6'', ''Address=192.0.2.5/24'',
        ''IPv6AcceptRA=false'']"
  have l: "generateLinkFileContents oneInterface =
     [\<lparr> Name = ''00-enaabbccddeeff.link'',
        Contents = ''[Match]\<newline>PermanentMACAddress=aa:bb:cc:dd:ee:ff\<newline>\<newline>[Link]\<newline>NamePolicy=\<newline>Name=enaabbccddeeff\<newline>'' \<rparr>]"
    by (simp add: generateLinkFileContents_def oneInterface_def ethMain_def ethMain_stripped)
  have d: "generateNetdevFileContents oneInterface =
     [\<lparr> Name = ''10-braabbccddeeff.netdev'',
        Contents = ''[NetDev]\<newline>Name=eth-main\<newline>Kind=bridge\<newline>MACAddress=aa:bb:cc:dd:ee:ff\<newline>\<newline>\<newline>[Bridge]\<newline>VLANFiltering=true\<newline>'' \<rparr>]"
    by (simp add: generateNetdevFileContents_def interfaceNetdev_def mtuString_def oneInterface_def
        ethMain_def ethMain_stripped)
  have c: "Contents (generateNetworkFileContents oneInterface ! 0) =
      concat (map (\<lambda>l. l @ [newline]) ?ls)"
    by (simp add: oneInterface_network newline_def)
  have e: "text_lines (concat (map (\<lambda>l. l @ [newline]) ?ls)) = ?ls @ [[]]"
    by (rule text_lines_of_lines) (simp add: newline_def)
  have t: "text_lines (Contents (generateNetworkFileContents oneInterface ! 0)) = ?ls @ [[]]"
    by (subst c) (rule e)
  have t': "text_lines (Contents (generateNetworkFileContents oneInterface ! 0)) =
       [''[Match]'', ''Name=eth-main'', '''', ''[DHCP]'', ''ClientIdentifier=mac'', ''RouteMetric=100'',
        ''UseMTU=true'', '''', ''[Network]'', ''LinkLocalAddressing=ipv6'', ''Address=192.0.2.5/24'',
        ''IPv6AcceptRA=false'', '''']"
    unfolding t by simp
  have a: "''Address=192.0.2.5/24'' \<in> set (text_lines (Contents (generateNetworkFileContents oneInterface ! 0)))"
    unfolding t by simp
  have b: "filter (\<lambda>l. HasPrefix l ''DHCP='')
        (text_lines (Contents (generateNetworkFileContents oneInterface ! 0))) = []"
    unfolding t by simp
  from l d oneInterface_network t' a b show ?thesis by (intro conjI)
qed

end
